theory Spec2Isabelle
  imports Complex_Main
begin

section \<open>JavaScript values\<close>

text \<open>
  Rules, conditions, action configurations and transactions are JSON-like documents.
  Numbers are idealised as reals (no NaN or infinity inside a document); a computed
  number that may be NaN is a \<open>real option\<close> with \<open>None\<close> for NaN. An object is an
  association list read with first-binding lookup. \<open>JBuiltin\<close> stands for a built-in
  function or object of the runtime, known by its name: no document contains one, but a
  lookup through the prototype chain can return one (\<open>constructor\<close>, \<open>toString\<close>).
\<close>

datatype jsval =
    JUndefined
  | JNull
  | JBool bool
  | JNum real
  | JStr string
  | JArr "jsval list"
  | JObj "(string \<times> jsval) list"
  | JBuiltin string

datatype error = Error string | TypeError string

fun message :: "error \<Rightarrow> string" where
  "message (Error m) = m"
| "message (TypeError m) = m"

text \<open>Truthiness: \<open>undefined\<close>, \<open>null\<close>, \<open>false\<close>, \<open>0\<close> and \<open>''\<close> are falsy.\<close>

fun truthy :: "jsval \<Rightarrow> bool" where
  "truthy JUndefined = False"
| "truthy JNull = False"
| "truthy (JBool b) = b"
| "truthy (JNum x) = (x \<noteq> 0)"
| "truthy (JStr s) = (s \<noteq> [])"
| "truthy (JArr xs) = True"
| "truthy (JObj kvs) = True"
| "truthy (JBuiltin b) = True"

fun nullish :: "jsval \<Rightarrow> bool" where
  "nullish JUndefined = True"
| "nullish JNull = True"
| "nullish v = False"

text \<open>
  Strict equality \<open>a === b\<close>. Arrays and objects compare by reference; the two operands
  of every comparison below come from different documents (a transaction and a rule),
  so two arrays or two objects are never the same reference.
\<close>

fun strict_eq :: "jsval \<Rightarrow> jsval \<Rightarrow> bool" where
  "strict_eq (JArr xs) b = False"
| "strict_eq (JObj kvs) b = False"
| "strict_eq a b = (a = b)"

text \<open>Array index keys: a canonical decimal numeral.\<close>

definition is_digit :: "char \<Rightarrow> bool" where
  "is_digit c = (48 \<le> (of_char c :: nat) \<and> (of_char c :: nat) \<le> 57)"

definition array_index :: "string \<Rightarrow> nat option" where
  "array_index s =
     (if s \<noteq> [] \<and> list_all is_digit s \<and> (hd s \<noteq> CHR ''0'' \<or> length s = 1)
      then Some (foldl (\<lambda>n c. 10 * n + (of_char c - 48)) 0 s)
      else None)"

text \<open>
  Own properties of a value: the entries of an object, the elements and \<open>length\<close> of an
  array, the characters and \<open>length\<close> of a string.
\<close>

fun own_prop :: "jsval \<Rightarrow> string \<Rightarrow> jsval option" where
  "own_prop (JObj kvs) k = map_of kvs k"
| "own_prop (JArr xs) k =
     (if k = ''length'' then Some (JNum (real (length xs)))
      else case array_index k of
             Some i \<Rightarrow> (if i < length xs then Some (xs ! i) else None)
           | None \<Rightarrow> None)"
| "own_prop (JStr s) k =
     (if k = ''length'' then Some (JNum (real (length s)))
      else case array_index k of
             Some i \<Rightarrow> (if i < length s then Some (JStr [s ! i]) else None)
           | None \<Rightarrow> None)"
| "own_prop v k = None"

text \<open>
  \<open>o.k\<close> for a property name \<open>k\<close> written in the code, on a value that is neither
  \<open>null\<close> nor \<open>undefined\<close>. The names the code reads this way (\<open>id\<close>, \<open>name\<close>,
  \<open>type\<close>, \<open>config\<close>, \<open>and\<close>, \<open>or\<close>, \<open>not\<close>, \<open>field\<close>, \<open>operator\<close>, \<open>value\<close>,
  \<open>conditions\<close>, \<open>actions\<close>, \<open>passed\<close>, \<open>amount\<close> and the like) are members of no
  built-in prototype, so on a document such a read finds an own property or nothing.
  Keys that come from the data (the path of a field, the name of an operator) go
  through \<open>lookup\<close> below, which follows the prototype chain.
\<close>

definition get_prop :: "jsval \<Rightarrow> string \<Rightarrow> jsval" where
  "get_prop v k = (case own_prop v k of Some x \<Rightarrow> x | None \<Rightarrow> JUndefined)"

text \<open>\<open>o.k\<close> in general: reading a property of \<open>null\<close> or \<open>undefined\<close> throws.\<close>

definition read_prop :: "jsval \<Rightarrow> string \<Rightarrow> error + jsval" where
  "read_prop v k =
     (if nullish v then Inl (TypeError (''Cannot read properties of null or undefined: '' @ k))
      else Inr (get_prop v k))"

text \<open>
  What the code takes from the JavaScript runtime and from the libraries it imports
  (moment, and the conversions of the language) is a parameter of the model: every
  theorem holds for every such environment.
\<close>

text \<open>
  The regular expressions of the validation patterns, all case-insensitive: a call of
  \<open>eval\<close>, the keyword \<open>function\<close> before a parenthesis, \<open>new Function\<close> and
  \<open>script\<close> (suspicious); \<open>password\<close>, \<open>secret\<close>, \<open>token\<close> and \<open>key\<close> (data
  leakage).
\<close>

datatype pattern =
    Rx_eval | Rx_function | Rx_new_Function | Rx_script
  | Rx_password | Rx_secret | Rx_token | Rx_key

record jsenv =
  parseFloat :: "jsval \<Rightarrow> real option"
  toStr :: "jsval \<Rightarrow> string"
  toNumber :: "jsval \<Rightarrow> real option"
  toLowerCase :: "string \<Rightarrow> string"
  toPath :: "jsval \<Rightarrow> string list"
  toObject :: "jsval \<Rightarrow> jsval"
  inherited_member :: "jsval \<Rightarrow> string \<Rightarrow> jsval option"
  less_eq_js :: "jsval \<Rightarrow> jsval \<Rightarrow> bool"
  isBefore :: "jsval \<Rightarrow> jsval \<Rightarrow> bool"
  isAfter :: "jsval \<Rightarrow> jsval \<Rightarrow> bool"
  isBetween :: "jsval \<Rightarrow> jsval \<Rightarrow> jsval \<Rightarrow> bool"
  json_stringify :: "jsval \<Rightarrow> string"
  regex_test :: "pattern \<Rightarrow> string \<Rightarrow> bool"

text \<open>\<open>String(v)\<close>; a string converts to itself.\<close>

definition js_String :: "jsenv \<Rightarrow> jsval \<Rightarrow> string" where
  "js_String L v = (case v of JStr s \<Rightarrow> s | _ \<Rightarrow> toStr L v)"

section \<open>Property lookup through the prototype chain\<close>

text \<open>
  The members every plain object inherits from \<open>Object.prototype\<close>: the constructor
  \<open>Object\<close>, the methods, and the accessor \<open>__proto__\<close>, which gives the prototype
  itself.
\<close>

definition object_prototype_methods :: "string list" where
  "object_prototype_methods =
     [''toString'', ''valueOf'', ''hasOwnProperty'', ''isPrototypeOf'',
      ''propertyIsEnumerable'', ''toLocaleString'', ''__defineGetter__'',
      ''__defineSetter__'', ''__lookupGetter__'', ''__lookupSetter__'']"

definition object_prototype :: "string \<Rightarrow> jsval option" where
  "object_prototype k =
     (if k = ''constructor'' then Some (JBuiltin ''Object'')
      else if k = ''__proto__'' then Some (JBuiltin ''Object.prototype'')
      else if k \<in> set object_prototype_methods then Some (JBuiltin (''Object.prototype.'' @ k))
      else None)"

text \<open>
  \<open>o[k]\<close> for a key that comes from the data: an own property first, then the
  prototype chain. For a plain object the chain is \<open>Object.prototype\<close>; what an array, a
  string, a number, a boolean or a built-in inherits (and what a built-in owns) is given
  by the runtime.
\<close>

definition lookup :: "jsenv \<Rightarrow> jsval \<Rightarrow> string \<Rightarrow> jsval option" where
  "lookup L v k =
     (case own_prop v k of
        Some x \<Rightarrow> Some x
      | None \<Rightarrow>
          (case v of
             JUndefined \<Rightarrow> None
           | JNull \<Rightarrow> None
           | JObj kvs \<Rightarrow> object_prototype k
           | _ \<Rightarrow> inherited_member L v k))"

section \<open>Field lookup (lodash \<open>_.get\<close>)\<close>

text \<open>The characters with a meaning in a path, by their codes.\<close>

definition backslash :: char where "backslash = CHR 0x5C"
definition single_quote :: char where "single_quote = CHR 0x27"
definition double_quote :: char where "double_quote = CHR 0x22"
definition open_bracket :: char where "open_bracket = CHR 0x5B"
definition close_bracket :: char where "close_bracket = CHR 0x5D"
definition line_feed :: char where "line_feed = CHR 0x0A"
definition carriage_return :: char where "carriage_return = CHR 0x0D"

definition is_word_char :: "char \<Rightarrow> bool" where
  "is_word_char c =
     (let n = (of_char c :: nat)
      in (48 \<le> n \<and> n \<le> 57) \<or> (65 \<le> n \<and> n \<le> 90) \<or> (97 \<le> n \<and> n \<le> 122) \<or> n = 95)"

text \<open>\<open>reIsPlainProp\<close>: word characters only.\<close>

definition reIsPlainProp :: "string \<Rightarrow> bool" where
  "reIsPlainProp s = list_all is_word_char s"

text \<open>
  The body of a quoted key, after the opening quote \<open>q\<close>: characters other than \<open>q\<close>
  and the backslash, and backslash escapes (a backslash and any character that is not a
  line end), up to the closing \<open>q\<close>. The result is the body as written and the text
  after the closing quote.
\<close>

fun quoted_body :: "char \<Rightarrow> string \<Rightarrow> (string \<times> string) option" where
  "quoted_body q [] = None"
| "quoted_body q (c # cs) =
     (if c = q then Some ([], cs)
      else if c = backslash then
        (case cs of
           [] \<Rightarrow> None
         | d # ds \<Rightarrow>
             (if d = line_feed \<or> d = carriage_return then None
              else case quoted_body q ds of
                     None \<Rightarrow> None
                   | Some (b, r) \<Rightarrow> Some (c # d # b, r)))
      else case quoted_body q cs of
             None \<Rightarrow> None
           | Some (b, r) \<Rightarrow> Some (c # b, r))"

text \<open>
  \<open>reIsDeepProp\<close>: the string has a dot, or an opening bracket followed by characters
  that are not brackets and a closing bracket, or by a quoted key and a closing bracket.
\<close>

definition bracket_char :: "char \<Rightarrow> bool" where
  "bracket_char c = (c = open_bracket \<or> c = close_bracket)"

definition simple_bracket :: "string \<Rightarrow> bool" where
  "simple_bracket cs =
     (case dropWhile (\<lambda>x. \<not> bracket_char x) cs of
        [] \<Rightarrow> False
      | c # r \<Rightarrow> c = close_bracket)"

definition quoted_bracket :: "string \<Rightarrow> (string \<times> string) option" where
  "quoted_bracket cs =
     (case cs of
        [] \<Rightarrow> None
      | q # r \<Rightarrow>
          (if q = double_quote \<or> q = single_quote then
             (case quoted_body q r of
                None \<Rightarrow> None
              | Some (b, r') \<Rightarrow>
                  (case r' of
                     [] \<Rightarrow> None
                   | c # rest \<Rightarrow> if c = close_bracket then Some (b, rest) else None))
           else None))"

fun reIsDeepProp :: "string \<Rightarrow> bool" where
  "reIsDeepProp [] = False"
| "reIsDeepProp (c # cs) =
     (c = CHR ''.'' \<or>
      (c = open_bracket \<and> (simple_bracket cs \<or> quoted_bracket cs \<noteq> None)) \<or>
      reIsDeepProp cs)"

text \<open>\<open>isKey\<close> for a string; \<open>value in Object(object)\<close> sees inherited members too.\<close>

definition isKey :: "jsenv \<Rightarrow> string \<Rightarrow> jsval \<Rightarrow> bool" where
  "isKey L s obj =
     (reIsPlainProp s \<or> \<not> reIsDeepProp s \<or> (\<not> nullish obj \<and> lookup L obj s \<noteq> None))"

text \<open>
  \<open>reEscapeChar\<close> applied to a quoted key: a backslash goes away, and of two
  backslashes one stays.
\<close>

fun unescape :: "string \<Rightarrow> string" where
  "unescape [] = []"
| "unescape [c] = (if c = backslash then [] else [c])"
| "unescape (c # d # cs) =
     (if c = backslash then (if d = backslash then d # unescape cs else unescape (d # cs))
      else c # unescape (d # cs))"

text \<open>
  A number in brackets, after the opening bracket: an optional minus, digits, an optional
  fraction, and the closing bracket. The result is the number as written and the text
  after the bracket.
\<close>

definition number_bracket :: "string \<Rightarrow> (string \<times> string) option" where
  "number_bracket cs =
     (let sign = (if cs \<noteq> [] \<and> hd cs = CHR ''-'' then ''-'' else []);
          s1 = drop (length sign) cs;
          ds = takeWhile is_digit s1;
          r1 = dropWhile is_digit s1;
          fs = (if r1 \<noteq> [] \<and> hd r1 = CHR ''.'' then takeWhile is_digit (tl r1) else []);
          frac = (if fs = [] then [] else CHR ''.'' # fs);
          r2 = drop (length frac) r1
      in if ds = [] then None
         else (case r2 of
                 [] \<Rightarrow> None
               | c # rest \<Rightarrow>
                   if c = close_bracket then Some (sign @ ds @ frac, rest) else None))"

text \<open>The key of a bracket group, after the opening bracket: a number or a quoted key.\<close>

definition bracket_key :: "string \<Rightarrow> (string \<times> string) option" where
  "bracket_key cs =
     (case number_bracket cs of
        Some kr \<Rightarrow> Some kr
      | None \<Rightarrow>
          (case quoted_bracket cs of
             None \<Rightarrow> None
           | Some (b, rest) \<Rightarrow> Some (unescape b, rest)))"

text \<open>
  The empty key of \<open>rePropName\<close>: at a dot or at \<open>[]\<close> that is followed by a dot, by
  \<open>[]\<close> or by the end of the string.
\<close>

definition starts_empty_brackets :: "string \<Rightarrow> bool" where
  "starts_empty_brackets s =
     (case s of a # b # r \<Rightarrow> a = open_bracket \<and> b = close_bracket | _ \<Rightarrow> False)"

definition separator_next :: "string \<Rightarrow> bool" where
  "separator_next r = (r = [] \<or> hd r = CHR ''.'' \<or> starts_empty_brackets r)"

definition empty_key_here :: "string \<Rightarrow> bool" where
  "empty_key_here s =
     (case s of
        [] \<Rightarrow> False
      | c # r \<Rightarrow>
          (if c = CHR ''.'' then separator_next r
           else starts_empty_brackets s \<and> separator_next (drop 2 s)))"

definition path_char :: "char \<Rightarrow> bool" where
  "path_char c = (c \<noteq> CHR ''.'' \<and> \<not> bracket_char c)"

lemma quoted_body_shorter:
  "quoted_body q cs = Some (b, r) \<Longrightarrow> length r < length cs"
proof (induction q cs arbitrary: b r rule: quoted_body.induct)
  case (1 q)
  then show ?case by simp
next
  case (2 q c cs)
  then show ?case
    by (auto split: if_splits list.splits option.splits) fastforce+
qed

lemma bracket_key_shorter:
  "bracket_key cs = Some (k, r) \<Longrightarrow> length r < length cs"
  by (auto simp: bracket_key_def number_bracket_def quoted_bracket_def Let_def
           split: option.splits list.splits if_splits
           dest!: quoted_body_shorter)
     (metis drop_eq_Nil2 length_Cons length_drop length_dropWhile_le less_Suc_eq_le
        linorder_not_less list.size(3) diff_le_self le_trans)+

text \<open>
  The keys that \<open>rePropName\<close> finds in a path, from the left: a run of characters other
  than dots and brackets, a bracket group, or an empty key; a character at which none of
  them matches is passed over.
\<close>

function path_keys :: "string \<Rightarrow> string list" where
  "path_keys [] = []"
| "path_keys (c # cs) =
     (if path_char c then (c # takeWhile path_char cs) # path_keys (dropWhile path_char cs)
      else if c = open_bracket then
        (case bracket_key cs of
           Some (k, rest) \<Rightarrow> k # path_keys rest
         | None \<Rightarrow> (if empty_key_here (c # cs) then [] # path_keys cs else path_keys cs))
      else if empty_key_here (c # cs) then [] # path_keys cs
      else path_keys cs)"
  by pat_completeness auto
termination
  by (relation "measure length")
     (auto simp: length_dropWhile_le less_Suc_eq_le dest!: bracket_key_shorter)

text \<open>\<open>stringToPath\<close>: a leading dot gives an empty first key.\<close>

definition stringToPath :: "string \<Rightarrow> string list" where
  "stringToPath s = (if s \<noteq> [] \<and> hd s = CHR ''.'' then [[]] else []) @ path_keys s"

text \<open>
  \<open>castPath\<close>: a string that \<open>isKey\<close> accepts is one key, any other string is parsed;
  a path that is not a string is converted by the library.
\<close>

definition castPath :: "jsenv \<Rightarrow> jsval \<Rightarrow> jsval \<Rightarrow> string list" where
  "castPath L field obj =
     (case field of
        JStr s \<Rightarrow> (if isKey L s obj then [s] else stringToPath s)
      | _ \<Rightarrow> toPath L field)"

text \<open>\<open>baseGet\<close>: \<open>object = object[key]\<close> while the object is not \<open>null\<close> or \<open>undefined\<close>.\<close>

fun baseGet :: "jsenv \<Rightarrow> jsval \<Rightarrow> string list \<Rightarrow> jsval" where
  "baseGet L v [] = v"
| "baseGet L v (k # ks) =
     (if nullish v then JUndefined
      else baseGet L (case lookup L v k of Some x \<Rightarrow> x | None \<Rightarrow> JUndefined) ks)"

definition lodash_get :: "jsenv \<Rightarrow> jsval \<Rightarrow> string list \<Rightarrow> jsval" where
  "lodash_get L obj path =
     (if nullish obj \<or> path = [] then JUndefined else baseGet L obj path)"

definition getFieldValue :: "jsenv \<Rightarrow> jsval \<Rightarrow> jsval \<Rightarrow> jsval" where
  "getFieldValue L field context = lodash_get L context (castPath L field context)"

text \<open>Splitting a dot-path at its dots.\<close>

fun split_on :: "char \<Rightarrow> string \<Rightarrow> string list" where
  "split_on c [] = [[]]"
| "split_on c (x # xs) =
     (if x = c then [] # split_on c xs
      else case split_on c xs of
             [] \<Rightarrow> [[x]]
           | w # ws \<Rightarrow> (x # w) # ws)"

section \<open>Condition evaluator (rule-processor.js)\<close>

fun startsWith :: "string \<Rightarrow> string \<Rightarrow> bool" where
  "startsWith s [] = True"
| "startsWith [] (y # ys) = False"
| "startsWith (x # xs) (y # ys) = (x = y \<and> startsWith xs ys)"

fun str_includes :: "string \<Rightarrow> string \<Rightarrow> bool" where
  "str_includes [] t = (t = [])"
| "str_includes (x # xs) t = (startsWith (x # xs) t \<or> str_includes xs t)"

definition endsWith :: "string \<Rightarrow> string \<Rightarrow> bool" where
  "endsWith s t = startsWith (rev s) (rev t)"

definition num_cmp :: "jsenv \<Rightarrow> (real \<Rightarrow> real \<Rightarrow> bool) \<Rightarrow> jsval \<Rightarrow> jsval \<Rightarrow> bool" where
  "num_cmp L r a b =
     (case (parseFloat L a, parseFloat L b) of
        (Some x, Some y) \<Rightarrow> r x y
      | _ \<Rightarrow> False)"

definition lower_of :: "jsenv \<Rightarrow> jsval \<Rightarrow> string" where
  "lower_of L v = toLowerCase L (js_String L v)"

definition array_includes :: "jsval list \<Rightarrow> jsval \<Rightarrow> bool" where
  "array_includes xs a = list_ex (\<lambda>x. strict_eq x a) xs"

definition is_empty_val :: "jsval \<Rightarrow> bool" where
  "is_empty_val a =
     (\<not> truthy a \<or> strict_eq a (JStr []) \<or> (case a of JArr xs \<Rightarrow> length xs = 0 | _ \<Rightarrow> False))"

text \<open>The operator table of the constructor: its own entries.\<close>

definition own_operators :: "jsenv \<Rightarrow> string \<Rightarrow> (jsval \<Rightarrow> jsval \<Rightarrow> error + bool) option" where
  "own_operators L name =
    (if name = ''equals'' then Some (\<lambda>a b. Inr (strict_eq a b))
     else if name = ''not_equals'' then Some (\<lambda>a b. Inr (\<not> strict_eq a b))
     else if name = ''greater_than'' then Some (\<lambda>a b. Inr (num_cmp L (\<lambda>x y. x > y) a b))
     else if name = ''less_than'' then Some (\<lambda>a b. Inr (num_cmp L (\<lambda>x y. x < y) a b))
     else if name = ''greater_than_or_equal'' then Some (\<lambda>a b. Inr (num_cmp L (\<lambda>x y. x \<ge> y) a b))
     else if name = ''less_than_or_equal'' then Some (\<lambda>a b. Inr (num_cmp L (\<lambda>x y. x \<le> y) a b))
     else if name = ''contains'' then Some (\<lambda>a b. Inr (str_includes (lower_of L a) (lower_of L b)))
     else if name = ''not_contains'' then Some (\<lambda>a b. Inr (\<not> str_includes (lower_of L a) (lower_of L b)))
     else if name = ''in'' then
       Some (\<lambda>a b. Inr (case b of JArr xs \<Rightarrow> array_includes xs a | _ \<Rightarrow> False))
     else if name = ''not_in'' then
       Some (\<lambda>a b. Inr (case b of JArr xs \<Rightarrow> \<not> array_includes xs a | _ \<Rightarrow> True))
     else if name = ''starts_with'' then Some (\<lambda>a b. Inr (startsWith (lower_of L a) (lower_of L b)))
     else if name = ''ends_with'' then Some (\<lambda>a b. Inr (endsWith (lower_of L a) (lower_of L b)))
     else if name = ''is_empty'' then Some (\<lambda>a b. Inr (is_empty_val a))
     else if name = ''is_not_empty'' then Some (\<lambda>a b. Inr (\<not> is_empty_val a))
     else if name = ''date_before'' then Some (\<lambda>a b. Inr (isBefore L a b))
     else if name = ''date_after'' then Some (\<lambda>a b. Inr (isAfter L a b))
     else if name = ''date_between'' then
       Some (\<lambda>a b. case read_prop b ''start'' of
                      Inl e \<Rightarrow> Inl e
                    | Inr s \<Rightarrow> Inr (isBetween L a s (get_prop b ''end'')))
     else None)"

text \<open>
  The table is a plain object, so \<open>this.operators[name]\<close> for a name that is not an
  entry finds the members of \<open>Object.prototype\<close>. Called as \<open>operatorFunc(a, b)\<close>, with
  no \<open>this\<close>: \<open>toString\<close> returns \<open>[object Undefined]\<close>; \<open>constructor\<close> is \<open>Object(a)\<close>,
  a new object for \<open>null\<close> and \<open>undefined\<close>, the object itself for an object, the
  wrapper object for a primitive; \<open>isPrototypeOf\<close> returns false for a primitive and
  throws for an object; \<open>__proto__\<close> is an object and not a function, and the other
  methods need a \<open>this\<close>: calling them throws a TypeError.
\<close>

definition is_object_value :: "jsval \<Rightarrow> bool" where
  "is_object_value v =
     (case v of JObj kvs \<Rightarrow> True | JArr xs \<Rightarrow> True | JBuiltin b \<Rightarrow> True | _ \<Rightarrow> False)"

definition inherited_operator :: "jsenv \<Rightarrow> string \<Rightarrow> (jsval \<Rightarrow> jsval \<Rightarrow> error + jsval) option" where
  "inherited_operator L name =
     (if name = ''toString'' then Some (\<lambda>a b. Inr (JStr ''[object Undefined]''))
      else if name = ''constructor'' then
        Some (\<lambda>a b. Inr (if nullish a then JObj []
                         else if is_object_value a then a
                         else toObject L a))
      else if name = ''isPrototypeOf'' then
        Some (\<lambda>a b. if is_object_value a
                     then Inl (TypeError ''Cannot convert undefined or null to object'')
                     else Inr (JBool False))
      else if name = ''__proto__'' then
        Some (\<lambda>a b. Inl (TypeError ''operatorFunc is not a function''))
      else if name \<in> set object_prototype_methods then
        Some (\<lambda>a b. Inl (TypeError ''Cannot convert undefined or null to object''))
      else None)"

text \<open>\<open>this.operators[name]\<close>: an entry of the table, else an inherited member.\<close>

definition operators :: "jsenv \<Rightarrow> string \<Rightarrow> (jsval \<Rightarrow> jsval \<Rightarrow> error + jsval) option" where
  "operators L name =
     (case own_operators L name of
        Some f \<Rightarrow> Some (\<lambda>a b. case f a b of Inl e \<Rightarrow> Inl e | Inr r \<Rightarrow> Inr (JBool r))
      | None \<Rightarrow> inherited_operator L name)"

text \<open>
  \<open>Array.prototype.every\<close> and \<open>some\<close> with a callback that may throw; what the
  callback returns counts by its truthiness.
\<close>

fun every_m :: "('a \<Rightarrow> error + jsval) \<Rightarrow> 'a list \<Rightarrow> error + jsval" where
  "every_m f [] = Inr (JBool True)"
| "every_m f (x # xs) =
     (case f x of
        Inl e \<Rightarrow> Inl e
      | Inr v \<Rightarrow> (if truthy v then every_m f xs else Inr (JBool False)))"

fun some_m :: "('a \<Rightarrow> error + jsval) \<Rightarrow> 'a list \<Rightarrow> error + jsval" where
  "some_m f [] = Inr (JBool False)"
| "some_m f (x # xs) =
     (case f x of
        Inl e \<Rightarrow> Inl e
      | Inr v \<Rightarrow> (if truthy v then Inr (JBool True) else some_m f xs))"

lemma every_m_cong [fundef_cong]:
  "xs = ys \<Longrightarrow> (\<And>x. x \<in> set ys \<Longrightarrow> f x = g x) \<Longrightarrow> every_m f xs = every_m g ys"
  by (induction ys arbitrary: xs) (auto split: sum.splits)

lemma some_m_cong [fundef_cong]:
  "xs = ys \<Longrightarrow> (\<And>x. x \<in> set ys \<Longrightarrow> f x = g x) \<Longrightarrow> some_m f xs = some_m g ys"
  by (induction ys arbitrary: xs) (auto split: sum.splits)

definition negate :: "error + jsval \<Rightarrow> error + jsval" where
  "negate r = (case r of Inl e \<Rightarrow> Inl e | Inr v \<Rightarrow> Inr (JBool (\<not> truthy v)))"

lemma size_map_of: "map_of kvs k = Some v \<Longrightarrow> size v < size (JObj kvs)"
  by (induction kvs) (auto split: if_splits)

lemma size_elem: "x \<in> set xs \<Longrightarrow> size x < size (JArr xs)"
  by (induction xs) auto

lemma array_index_letters [simp]:
  "array_index ''and'' = None" "array_index ''or'' = None" "array_index ''not'' = None"
  by (simp_all add: array_index_def is_digit_def)

lemma size_get_prop:
  "k \<in> {''and'', ''or'', ''not''} \<Longrightarrow> truthy (get_prop c k) \<Longrightarrow> size (get_prop c k) < size c"
  by (cases c) (auto simp: get_prop_def split: option.splits dest!: size_map_of)

text \<open>
  The default of the parameter \<open>context = {}\<close>: a context that is \<open>undefined\<close> is the
  empty object. The recursive calls pass the context on, so the default is applied
  where the context is read.
\<close>

definition default_context :: "jsval \<Rightarrow> jsval" where
  "default_context context = (if context = JUndefined then JObj [] else context)"

function parseCondition :: "jsenv \<Rightarrow> jsval \<Rightarrow> jsval \<Rightarrow> error + jsval" where
  "parseCondition L condition context =
     (if \<not> truthy condition then Inr (JBool False)
      else if truthy (get_prop condition ''and'') then
        (case get_prop condition ''and'' of
           JArr cs \<Rightarrow> every_m (\<lambda>sub. parseCondition L sub context) cs
         | _ \<Rightarrow> Inl (TypeError ''condition.and.every is not a function''))
      else if truthy (get_prop condition ''or'') then
        (case get_prop condition ''or'' of
           JArr cs \<Rightarrow> some_m (\<lambda>sub. parseCondition L sub context) cs
         | _ \<Rightarrow> Inl (TypeError ''condition.or.some is not a function''))
      else if truthy (get_prop condition ''not'') then
        negate (parseCondition L (get_prop condition ''not'') context)
      else
        (let field = get_prop condition ''field'';
             operator = get_prop condition ''operator'';
             val = get_prop condition ''value''
         in if \<not> truthy field \<or> \<not> truthy operator then
              Inl (Error ''Condition must have field and operator'')
            else
              (let fieldValue = getFieldValue L field (default_context context)
               in case operators L (js_String L operator) of
                    None \<Rightarrow> Inl (Error (''Unsupported operator: '' @ js_String L operator))
                  | Some operatorFunc \<Rightarrow> operatorFunc fieldValue val)))"
  by pat_completeness auto
termination
proof (relation "measure (\<lambda>(L, c, ctx). size c)")
  show "wf (measure (\<lambda>(L, c, ctx). size c))" by simp
next
  fix L :: jsenv and condition ctx0 :: jsval and x6 x
  assume "truthy (get_prop condition ''and'')" "get_prop condition ''and'' = JArr x6" "x \<in> set x6"
  then show "((L, x, ctx0), (L, condition, ctx0)) \<in> measure (\<lambda>(L, c, ctx). size c)"
    using size_get_prop [of "''and''" condition] size_elem [of x x6] by simp
next
  fix L :: jsenv and condition ctx0 :: jsval and x6 x
  assume "truthy (get_prop condition ''or'')" "get_prop condition ''or'' = JArr x6" "x \<in> set x6"
  then show "((L, x, ctx0), (L, condition, ctx0)) \<in> measure (\<lambda>(L, c, ctx). size c)"
    using size_get_prop [of "''or''" condition] size_elem [of x x6] by simp
next
  fix L :: jsenv and condition ctx0 :: jsval
  assume "truthy (get_prop condition ''not'')"
  then show "((L, get_prop condition ''not'', ctx0), (L, condition, ctx0))
               \<in> measure (\<lambda>(L, c, ctx). size c)"
    using size_get_prop [of "''not''" condition] by simp
qed

declare parseCondition.simps [simp del]

text \<open>The four shapes of a condition document.\<close>

definition And_node :: "jsval list \<Rightarrow> jsval" where
  "And_node cs = JObj [(''and'', JArr cs)]"

definition Or_node :: "jsval list \<Rightarrow> jsval" where
  "Or_node cs = JObj [(''or'', JArr cs)]"

definition Not_node :: "jsval \<Rightarrow> jsval" where
  "Not_node c = JObj [(''not'', c)]"

definition Leaf :: "string \<Rightarrow> string \<Rightarrow> jsval \<Rightarrow> jsval" where
  "Leaf f operator v = JObj [(''field'', JStr f), (''operator'', JStr operator), (''value'', v)]"

text \<open>
  A dot-path is absent from a document when some key along it is missing: the value
  reached so far has no such own property. This is absence in the document itself;
  \<open>path_unresolved\<close> is what the lookup sees: some key along the path, as lodash parses
  it, is neither an own property nor an inherited member of the value reached.
\<close>

fun path_absent :: "string list \<Rightarrow> jsval \<Rightarrow> bool" where
  "path_absent [] v = False"
| "path_absent (k # ks) v =
     (case own_prop v k of None \<Rightarrow> True | Some v' \<Rightarrow> path_absent ks v')"

definition field_absent :: "string \<Rightarrow> jsval \<Rightarrow> bool" where
  "field_absent f ctx = (own_prop ctx f = None \<and> path_absent (split_on CHR ''.'' f) ctx)"

fun path_unresolved :: "jsenv \<Rightarrow> string list \<Rightarrow> jsval \<Rightarrow> bool" where
  "path_unresolved L [] v = False"
| "path_unresolved L (k # ks) v =
     (case lookup L v k of None \<Rightarrow> True | Some v' \<Rightarrow> path_unresolved L ks v')"

definition field_unresolved :: "jsenv \<Rightarrow> string \<Rightarrow> jsval \<Rightarrow> bool" where
  "field_unresolved L f ctx = path_unresolved L (castPath L (JStr f) ctx) ctx"

text \<open>
  An environment for evaluating the model on concrete inputs. Of the members that
  strings inherit it knows \<open>trim\<close>.
\<close>

definition sample_env :: jsenv where
  "sample_env =
     \<lparr> parseFloat = (\<lambda>v. case v of JNum x \<Rightarrow> Some x | _ \<Rightarrow> None),
       toStr = (\<lambda>v. case v of JStr s \<Rightarrow> s | JNull \<Rightarrow> ''null'' | JUndefined \<Rightarrow> ''undefined''
                      | JBool b \<Rightarrow> (if b then ''true'' else ''false'') | _ \<Rightarrow> ''?''),
       toNumber = (\<lambda>v. case v of JNum x \<Rightarrow> Some x | _ \<Rightarrow> None),
       toLowerCase = (\<lambda>s. s),
       toPath = (\<lambda>v. []),
       toObject = (\<lambda>v. JBuiltin ''wrapper object''),
       inherited_member =
         (\<lambda>v k. case v of
                  JStr s \<Rightarrow> (if k = ''trim'' then Some (JBuiltin ''String.prototype.trim'')
                             else object_prototype k)
                | JBuiltin b \<Rightarrow> None
                | _ \<Rightarrow> object_prototype k),
       less_eq_js = (\<lambda>a b. case (a, b) of (JNum x, JNum y) \<Rightarrow> x \<le> y | _ \<Rightarrow> False),
       isBefore = (\<lambda>a b. False),
       isAfter = (\<lambda>a b. False),
       isBetween = (\<lambda>a s e. False),
       json_stringify = (\<lambda>v. []),
       regex_test = (\<lambda>p s. False) \<rparr>"

section \<open>Rule engine and action executor (rule-processor.js)\<close>

text \<open>
  What \<open>executeAction\<close> returns, one shape per action kind: \<open>{flagged, reason}\<close>,
  \<open>{notification_sent, recipient, message}\<close>, \<open>{score, threshold}\<close> (the score may be
  NaN), \<open>{logged, event, data}\<close> and \<open>{rejected, reason}\<close>.
\<close>

datatype payload =
    Flagged jsval
  | NotificationSent jsval string
  | Score "real option" jsval
  | Logged jsval jsval
  | Rejected jsval

text \<open>
  An entry of \<open>executedActions\<close>: \<open>success: true\<close> with the result, or
  \<open>success: false\<close> with \<open>result: null\<close> and the error message.
\<close>

datatype action_outcome = Succeeded payload | Failed string

record executed_action =
  atype :: jsval
  config :: jsval
  outcome :: action_outcome

definition success :: "executed_action \<Rightarrow> bool" where
  "success a = (case outcome a of Succeeded p \<Rightarrow> True | Failed m \<Rightarrow> False)"

text \<open>The clock-derived fields \<open>executionTime\<close> and \<open>timestamp\<close> are left out.\<close>

record rule_result =
  ruleId :: jsval
  ruleName :: jsval
  result :: jsval
  actions :: "executed_action list"
  error :: "string option"
  transactionId :: jsval

text \<open>
  \<open>for (const x of v)\<close>: an array yields its elements, a string its characters, any
  other value is not iterable.
\<close>

definition iterate :: "jsval \<Rightarrow> error + jsval list" where
  "iterate v =
     (case v of
        JArr xs \<Rightarrow> Inr xs
      | JStr s \<Rightarrow> Inr (map (\<lambda>c. JStr [c]) s)
      | _ \<Rightarrow> Inl (TypeError ''value is not iterable''))"

subsection \<open>Message templates\<close>

text \<open>The text up to the next closing brace, and the text after that brace.\<close>

fun take_until_close :: "string \<Rightarrow> (string \<times> string) option" where
  "take_until_close [] = None"
| "take_until_close (x # xs) =
     (if x = CHR ''}'' then Some ([], xs)
      else case take_until_close xs of
             None \<Rightarrow> None
           | Some (f, r) \<Rightarrow> Some (x # f, r))"

lemma take_until_close_shorter:
  "take_until_close xs = Some (f, r) \<Longrightarrow> length r < length xs"
  by (induction xs arbitrary: f r) (auto split: if_splits option.splits)

text \<open>
  \<open>template.replace(/\{([^}]+)\}/g, callback)\<close>: scanning from the left, an opening
  brace followed by at least one character other than a closing brace and then a closing
  brace is a match, replaced by what the callback returns for the text between the
  braces; scanning goes on after the match.
\<close>

function replace_placeholders :: "(string \<Rightarrow> string) \<Rightarrow> string \<Rightarrow> string" where
  "replace_placeholders cb [] = []"
| "replace_placeholders cb (c # cs) =
     (if c = CHR ''{'' then
        (case take_until_close cs of
           None \<Rightarrow> c # replace_placeholders cb cs
         | Some (f, r) \<Rightarrow>
             (if f = [] then c # replace_placeholders cb cs
              else cb f @ replace_placeholders cb r))
      else c # replace_placeholders cb cs)"
  by pat_completeness auto
termination
  by (relation "measure (\<lambda>(cb, s). length s)")
     (auto dest: take_until_close_shorter)

text \<open>
  The callback of \<open>interpolateMessage\<close>: \<open>this.getFieldValue(field, data) || match\<close>,
  converted to a string by \<open>replace\<close>.
\<close>

definition placeholder_value :: "jsenv \<Rightarrow> jsval \<Rightarrow> string \<Rightarrow> string" where
  "placeholder_value L data f =
     (let v = getFieldValue L (JStr f) data
      in if truthy v then js_String L v else ''{'' @ f @ ''}'')"

definition interpolateMessage :: "jsenv \<Rightarrow> jsval \<Rightarrow> jsval \<Rightarrow> error + string" where
  "interpolateMessage L template data =
     (case template of
        JStr t \<Rightarrow> Inr (replace_placeholders (placeholder_value L data) t)
      | _ \<Rightarrow> Inl (TypeError ''template.replace is not a function''))"

subsection \<open>Risk score of one action\<close>

definition mult_js :: "jsenv \<Rightarrow> jsval \<Rightarrow> jsval \<Rightarrow> real option" where
  "mult_js L a b =
     (case (toNumber L a, toNumber L b) of
        (Some x, Some y) \<Rightarrow> Some (x * y)
      | _ \<Rightarrow> None)"

definition add_js :: "real option \<Rightarrow> real option \<Rightarrow> real option" where
  "add_js a b = (case (a, b) of (Some x, Some y) \<Rightarrow> Some (x + y) | _ \<Rightarrow> None)"

text \<open>
  The inner loop over the ranges of one factor: the first range that contains the field
  value adds its points times the weight, and the loop stops there.
\<close>

fun score_ranges :: "jsenv \<Rightarrow> jsval \<Rightarrow> jsval \<Rightarrow> real option \<Rightarrow> jsval list \<Rightarrow> error + real option" where
  "score_ranges L fieldValue weight score [] = Inr score"
| "score_ranges L fieldValue weight score (rng # ranges) =
     (case read_prop rng ''min'' of
        Inl e \<Rightarrow> Inl e
      | Inr lo \<Rightarrow>
          (if less_eq_js L lo fieldValue \<and> less_eq_js L fieldValue (get_prop rng ''max'')
           then Inr (add_js score (mult_js L (get_prop rng ''points'') weight))
           else score_ranges L fieldValue weight score ranges))"

fun score_factors :: "jsenv \<Rightarrow> jsval \<Rightarrow> real option \<Rightarrow> jsval list \<Rightarrow> error + real option" where
  "score_factors L td score [] = Inr score"
| "score_factors L td score (factor # factors) =
     (case read_prop factor ''field'' of
        Inl e \<Rightarrow> Inl e
      | Inr field \<Rightarrow>
          (let fieldValue = getFieldValue L field td;
               weight = (if truthy (get_prop factor ''weight'') then get_prop factor ''weight''
                         else JNum 1)
           in if truthy (get_prop factor ''ranges'') then
                (case iterate (get_prop factor ''ranges'') of
                   Inl e \<Rightarrow> Inl e
                 | Inr ranges \<Rightarrow>
                     (case score_ranges L fieldValue weight score ranges of
                        Inl e \<Rightarrow> Inl e
                      | Inr score' \<Rightarrow> score_factors L td score' factors))
              else score_factors L td score factors))"

definition calculateRiskScore :: "jsenv \<Rightarrow> jsval \<Rightarrow> jsval \<Rightarrow> error + real option" where
  "calculateRiskScore L cfg td =
     (case read_prop cfg ''factors'' of
        Inl e \<Rightarrow> Inl e
      | Inr fs \<Rightarrow>
          (case iterate (if truthy fs then fs else JArr []) of
             Inl e \<Rightarrow> Inl e
           | Inr factors \<Rightarrow>
               (case score_factors L td (Some 0) factors of
                  Inl e \<Rightarrow> Inl e
                | Inr score \<Rightarrow> Inr (map_option (\<lambda>x. min (max x 0) 100) score))))"

subsection \<open>Actions and rules\<close>

definition executeAction :: "jsenv \<Rightarrow> jsval \<Rightarrow> jsval \<Rightarrow> error + payload" where
  "executeAction L action td =
     (case read_prop action ''type'' of
        Inl e \<Rightarrow> Inl e
      | Inr ty \<Rightarrow>
          (let cfg = get_prop action ''config'' in
           if ty = JStr ''flag_transaction'' then
             (case read_prop cfg ''reason'' of
                Inl e \<Rightarrow> Inl e
              | Inr reason \<Rightarrow> Inr (Flagged reason))
           else if ty = JStr ''send_notification'' then
             (case read_prop cfg ''recipient'' of
                Inl e \<Rightarrow> Inl e
              | Inr recipient \<Rightarrow>
                  (case interpolateMessage L (get_prop cfg ''message'') td of
                     Inl e \<Rightarrow> Inl e
                   | Inr msg \<Rightarrow> Inr (NotificationSent recipient msg)))
           else if ty = JStr ''calculate_score'' then
             (case calculateRiskScore L cfg td of
                Inl e \<Rightarrow> Inl e
              | Inr score \<Rightarrow> Inr (Score score (get_prop cfg ''threshold'')))
           else if ty = JStr ''log_event'' then
             (case read_prop cfg ''event'' of
                Inl e \<Rightarrow> Inl e
              | Inr event \<Rightarrow> Inr (Logged event td))
           else if ty = JStr ''reject_transaction'' then
             (case read_prop cfg ''reason'' of
                Inl e \<Rightarrow> Inl e
              | Inr reason \<Rightarrow> Inr (Rejected reason))
           else Inl (Error (''Unknown action type: '' @ js_String L ty))))"

text \<open>
  The loop of \<open>executeActions\<close>. The \<open>catch\<close> block reads \<open>action.type\<close> again, so an
  entry of the list that is \<open>null\<close> or \<open>undefined\<close> throws out of the loop.
\<close>

fun run_actions :: "jsenv \<Rightarrow> jsval \<Rightarrow> jsval list \<Rightarrow> error + executed_action list" where
  "run_actions L td [] = Inr []"
| "run_actions L td (action # rest) =
     (case (case executeAction L action td of
              Inr actionResult \<Rightarrow>
                Inr \<lparr> atype = get_prop action ''type'', config = get_prop action ''config'',
                      outcome = Succeeded actionResult \<rparr>
            | Inl e \<Rightarrow>
                (case read_prop action ''type'' of
                   Inl e' \<Rightarrow> Inl e'
                 | Inr ty \<Rightarrow>
                     Inr \<lparr> atype = ty, config = get_prop action ''config'',
                           outcome = Failed (message e) \<rparr>)) of
        Inl e \<Rightarrow> Inl e
      | Inr entry \<Rightarrow>
          (case run_actions L td rest of
             Inl e \<Rightarrow> Inl e
           | Inr entries \<Rightarrow> Inr (entry # entries)))"

definition executeActions :: "jsenv \<Rightarrow> jsval \<Rightarrow> jsval \<Rightarrow> error + executed_action list" where
  "executeActions L acts td =
     (case iterate acts of
        Inl e \<Rightarrow> Inl e
      | Inr as \<Rightarrow> run_actions L td as)"

text \<open>
  \<open>evaluateRule\<close>: whatever the \<open>try\<close> block throws becomes the result of the \<open>catch\<close>
  block. Both blocks read \<open>rule.id\<close> and \<open>transactionData.id\<close>, so a rule or a
  transaction that is \<open>null\<close> or \<open>undefined\<close> throws out of the function.
\<close>

definition evaluateRule :: "jsenv \<Rightarrow> jsval \<Rightarrow> jsval \<Rightarrow> error + rule_result" where
  "evaluateRule L rule td =
     (case read_prop rule ''id'' of
        Inl e \<Rightarrow> Inl e
      | Inr rid \<Rightarrow>
     (case read_prop td ''id'' of
        Inl e \<Rightarrow> Inl e
      | Inr tid \<Rightarrow>
          (let caught = (\<lambda>e. \<lparr> ruleId = rid, ruleName = get_prop rule ''name'',
                                result = JBool False, actions = [], error = Some (message e),
                                transactionId = tid \<rparr>);
               finished = (\<lambda>b acts. \<lparr> ruleId = rid, ruleName = get_prop rule ''name'',
                                   result = b, actions = acts, error = None,
                                   transactionId = tid \<rparr>)
           in case (if truthy (get_prop rule ''conditions'')
                    then parseCondition L (get_prop rule ''conditions'') td
                    else Inr (JBool False)) of
                Inl e \<Rightarrow> Inr (caught e)
              | Inr b \<Rightarrow>
                  (if truthy b \<and> truthy (get_prop rule ''actions'') then
                     (case executeActions L (get_prop rule ''actions'') td of
                        Inl e \<Rightarrow> Inr (caught e)
                      | Inr acts \<Rightarrow> Inr (finished b acts))
                   else Inr (finished b [])))))"

text \<open>The report of \<open>RuleProcessor.processTransaction\<close> (without its timestamp).\<close>

record report =
  report_transactionId :: jsval
  totalRules :: nat
  passedRules :: nat
  failedRules :: nat
  errors :: nat
  results :: "rule_result list"

fun evaluate_enabled :: "jsenv \<Rightarrow> jsval \<Rightarrow> jsval list \<Rightarrow> error + rule_result list" where
  "evaluate_enabled L td [] = Inr []"
| "evaluate_enabled L td (rule # rules) =
     (case read_prop rule ''enabled'' of
        Inl e \<Rightarrow> Inl e
      | Inr en \<Rightarrow>
          (if en \<noteq> JBool False then
             (case evaluateRule L rule td of
                Inl e \<Rightarrow> Inl e
              | Inr r \<Rightarrow>
                  (case evaluate_enabled L td rules of
                     Inl e \<Rightarrow> Inl e
                   | Inr rs \<Rightarrow> Inr (r # rs)))
           else evaluate_enabled L td rules))"

definition is_error :: "string option \<Rightarrow> bool" where
  "is_error e = (case e of None \<Rightarrow> False | Some m \<Rightarrow> m \<noteq> [])"

definition RuleProcessor_processTransaction :: "jsenv \<Rightarrow> jsval \<Rightarrow> jsval \<Rightarrow> error + report" where
  "RuleProcessor_processTransaction L rules td =
     (case iterate rules of
        Inl e \<Rightarrow> Inl e
      | Inr rs \<Rightarrow>
          (case evaluate_enabled L td rs of
             Inl e \<Rightarrow> Inl e
           | Inr res \<Rightarrow>
               (case read_prop td ''id'' of
                  Inl e \<Rightarrow> Inl e
                | Inr tid \<Rightarrow>
                    Inr \<lparr> report_transactionId = tid,
                          totalRules = length res,
                          passedRules = length (filter (\<lambda>r. truthy (result r)) res),
                          failedRules = length (filter (\<lambda>r. \<not> truthy (result r)) res),
                          errors = length (filter (\<lambda>r. is_error (error r)) res),
                          results = res \<rparr>)))"



section \<open>Transaction pipeline (TransactionMonitor in server.js)\<close>

datatype status = StPending | StProcessing | StCompleted | StFailed


text \<open>
  A transaction as \<open>enhanceTransaction\<close> builds it: the fields of the submitted document
  (\<open>...transaction\<close>) and the metadata the pipeline assigns and mutates. The \<open>result\<close>
  that a completed transaction points back to is kept in the processing result, not
  here.
\<close>

record tx =
  tx_fields :: "(string \<times> jsval) list"
  tx_id :: jsval
  tx_timestamp :: jsval
  processedAt :: jsval
  retryCount :: nat
  tx_status :: status
  tx_metadata :: jsval
  tx_error :: "string option"


record monitor_config =
  autoProcessTransactions :: bool
  batchSize :: nat
  processingInterval :: nat
  enableRealTimeProcessing :: bool
  maxRetries :: nat
  retryDelay :: nat

record summary =
  totalRulesEvaluated :: nat
  rulesTriggered :: nat
  rulesFlagged :: nat
  hasErrors :: bool
  riskScore :: real
  recommendation :: string

record processing_result =
  pr_transactionId :: jsval
  pr_timestamp :: string
  processingTime :: real
  ruleResults :: report
  pr_transaction :: tx
  pr_summary :: summary

record failure_result =
  fr_transactionId :: jsval
  fr_timestamp :: string
  fr_processingTime :: real
  fr_error :: string
  fr_retryCount :: nat
  fr_transaction :: tx

datatype event =
    Started
  | TransactionQueued tx
  | TransactionProcessed processing_result
  | TransactionFailed failure_result

text \<open>What the pipeline hands to the validator's \<open>queueValidation\<close>.\<close>

datatype request_data = RuleExecution rule_result tx | Performance real nat jsval

record validation_request =
  vr_type :: string
  vr_priority :: string
  vr_data :: request_data

text \<open>
  The trace is not a field of the source: it records, in program order, every
  assignment to \<open>transaction.status\<close> and every retry timer that is set, so that the
  transitions of a transaction can be stated. The callbacks handed to the event loop
  are part of the state: \<open>loop_scheduled\<close> says that a call of \<open>processLoop\<close> is pending
  (\<open>setTimeout(processLoop, processingInterval)\<close>), \<open>immediates\<close> counts the pending
  \<open>setImmediate(() => this.processNextBatch())\<close>, and \<open>timers\<close> holds the pending retry
  timers with their delays.
\<close>

datatype trace_entry = StatusSet jsval status | RetryScheduled jsval nat

record monitor =
  cfg :: monitor_config
  isProcessing :: bool
  loop_scheduled :: bool
  transactionQueue :: "tx list"
  processingQueue :: "tx list"
  rules :: jsval
  transactionHistory :: "processing_result list"
  totalTransactions :: nat
  processedTransactions :: nat
  failedTransactions :: nat
  averageProcessingTime :: real
  lastProcessingTime :: "string option"
  emitted :: "event list"
  timers :: "(nat \<times> tx) list"
  immediates :: nat
  validator :: "validation_request list option"
  trace :: "trace_entry list"

subsection \<open>Submission\<close>

definition typeof_object :: "jsval \<Rightarrow> bool" where
  "typeof_object v = (case v of JNull \<Rightarrow> True | JArr xs \<Rightarrow> True | JObj kvs \<Rightarrow> True | _ \<Rightarrow> False)"

text \<open>\<open>field in transaction\<close>.\<close>

definition has_prop :: "jsval \<Rightarrow> string \<Rightarrow> bool" where
  "has_prop v k = (own_prop v k \<noteq> None)"

definition isValidTransaction :: "jsval \<Rightarrow> bool" where
  "isValidTransaction transaction =
     (if \<not> truthy transaction \<or> \<not> typeof_object transaction then False
      else if \<not> list_all (has_prop transaction) [''amount'', ''userId'', ''type''] then False
      else (case get_prop transaction ''amount'' of
              JNum x \<Rightarrow> \<not> x < 0
            | _ \<Rightarrow> False))"

text \<open>
  \<open>{...v}\<close>: the entries of an object (spreading a string or an array, which gives index
  keys, is not modelled).
\<close>

definition spread :: "jsval \<Rightarrow> (string \<times> jsval) list" where
  "spread v = (case v of JObj kvs \<Rightarrow> kvs | _ \<Rightarrow> [])"

text \<open>\<open>uuid\<close> is what \<open>uuidv4()\<close> returns and \<open>now\<close> the current time as an ISO string.\<close>

definition enhanceTransaction :: "string \<Rightarrow> string \<Rightarrow> jsval \<Rightarrow> tx" where
  "enhanceTransaction uuid now transaction =
     \<lparr> tx_fields = spread transaction,
       tx_id = (if truthy (get_prop transaction ''id'') then get_prop transaction ''id''
                else JStr uuid),
       tx_timestamp = (if truthy (get_prop transaction ''timestamp'')
                       then get_prop transaction ''timestamp'' else JStr now),
       processedAt = JNull,
       retryCount = 0,
       tx_status = StPending,
       tx_metadata = JObj (spread (get_prop transaction ''metadata'') @
                           [(''receivedAt'', JStr now), (''source'', JStr ''ui''),
                            (''version'', JStr ''1.0'')]),
       tx_error = None \<rparr>"

text \<open>
  \<open>monitorTransaction\<close> returns the id or throws; the state it leaves is returned in
  both cases. \<open>setImmediate(() => this.processNextBatch())\<close> is counted in
  \<open>immediates\<close>.
\<close>

definition monitorTransaction ::
  "string \<Rightarrow> string \<Rightarrow> jsval \<Rightarrow> monitor \<Rightarrow> (error + jsval) \<times> monitor" where
  "monitorTransaction uuid now transactionData st =
     (if \<not> isValidTransaction transactionData then
        (Inl (Error ''Invalid transaction data provided''), st)
      else
        (let enhanced = enhanceTransaction uuid now transactionData
         in (Inr (tx_id enhanced),
             st \<lparr> transactionQueue := transactionQueue st @ [enhanced],
                  totalTransactions := totalTransactions st + 1,
                  emitted := emitted st @ [TransactionQueued enhanced],
                  immediates := (if enableRealTimeProcessing (cfg st)
                                 then immediates st + 1 else immediates st),
                  trace := trace st @ [StatusSet (tx_id enhanced) StPending] \<rparr>)))"

subsection \<open>Result summary\<close>

definition is_flag :: "executed_action \<Rightarrow> bool" where
  "is_flag a = (atype a = JStr ''flag_transaction'' \<and> success a)"

definition is_score :: "executed_action \<Rightarrow> bool" where
  "is_score a = (atype a = JStr ''calculate_score'' \<and> success a)"

text \<open>\<open>action.result.score || 0\<close>: a missing score, NaN and \<open>0\<close> all give \<open>0\<close>.\<close>

definition action_score :: "executed_action \<Rightarrow> real" where
  "action_score a =
     (case outcome a of
        Succeeded (Score (Some x) t) \<Rightarrow> x
      | _ \<Rightarrow> 0)"

text \<open>\<open>Math.round\<close>: the nearest integer, a half rounding up.\<close>

definition js_round :: "real \<Rightarrow> real" where
  "js_round x = of_int \<lfloor>x + 1 / 2\<rfloor>"

definition calculateOverallRiskScore :: "rule_result list \<Rightarrow> real" where
  "calculateOverallRiskScore triggeredRules =
     (if length triggeredRules = 0 then 0
      else
        (let (totalScore, scoreCount) =
               foldl (\<lambda>acc rule.
                        foldl (\<lambda>(total, n) action. (total + action_score action, n + 1))
                          acc (filter is_score (actions rule)))
                 (0, 0 :: nat) triggeredRules
         in if scoreCount > 0 then js_round (totalScore / real scoreCount) else 0))"

definition generateRecommendation :: "rule_result list \<Rightarrow> rule_result list \<Rightarrow> string" where
  "generateRecommendation triggeredRules flaggedRules =
     (if length flaggedRules > 0 then ''REVIEW_REQUIRED''
      else if length triggeredRules > 2 then ''MONITOR_CLOSELY''
      else if length triggeredRules > 0 then ''NORMAL_MONITORING''
      else ''APPROVED'')"

definition createResultSummary :: "report \<Rightarrow> summary" where
  "createResultSummary rep =
     (let triggeredRules = filter (\<lambda>r. truthy (result r)) (results rep);
          flaggedRules = filter (\<lambda>r. list_ex is_flag (actions r)) triggeredRules
      in \<lparr> totalRulesEvaluated = totalRules rep,
            rulesTriggered = length triggeredRules,
            rulesFlagged = length flaggedRules,
            hasErrors = (errors rep > 0),
            riskScore = calculateOverallRiskScore triggeredRules,
            recommendation = generateRecommendation triggeredRules flaggedRules \<rparr>)"

subsection \<open>Processing, retry and failure\<close>




text \<open>
  The callback of the \<open>i\<close>-th pending retry timer:
  \<open>this.transactionQueue.unshift(transaction)\<close>.
\<close>

definition fire_timer :: "nat \<Rightarrow> monitor \<Rightarrow> monitor" where
  "fire_timer i st =
     (if i < length (timers st) then
        st \<lparr> timers := take i (timers st) @ drop (Suc i) (timers st),
             transactionQueue := snd (timers st ! i) # transactionQueue st \<rparr>
      else st)"









subsection \<open>Statements about the pipeline\<close>

text \<open>The state the constructor leaves, with the default configuration and no validator.\<close>

definition new_monitor :: monitor where
  "new_monitor =
     \<lparr> cfg = \<lparr> autoProcessTransactions = True, batchSize = 10, processingInterval = 1000,
               enableRealTimeProcessing = True, maxRetries = 3, retryDelay = 1000 \<rparr>,
       isProcessing = False, loop_scheduled = False,
       transactionQueue = [], processingQueue = [], rules = JArr [],
       transactionHistory = [], totalTransactions = 0, processedTransactions = 0,
       failedTransactions = 0, averageProcessingTime = 0, lastProcessingTime = None,
       emitted = [], timers = [], immediates = 0, validator = None, trace = [] \<rparr>"

text \<open>
  What \<open>isValidTransaction\<close> asks of a document: it is an object that has the keys
  \<open>amount\<close>, \<open>userId\<close> and \<open>type\<close>, and its \<open>amount\<close> is a number that is not negative.
\<close>

definition has_required_fields :: "jsval \<Rightarrow> bool" where
  "has_required_fields td =
     (case td of
        JObj kvs \<Rightarrow>
          (case map_of kvs ''amount'' of Some (JNum x) \<Rightarrow> 0 \<le> x | _ \<Rightarrow> False) \<and>
          map_of kvs ''userId'' \<noteq> None \<and> map_of kvs ''type'' \<noteq> None
      | _ \<Rightarrow> False)"

text \<open>
  The required fields in the words of the specification: \<open>amount\<close> a non-negative
  number, \<open>userId\<close> a non-empty identifier (a non-empty string, or a number), \<open>type\<close> a
  string.
\<close>

definition spec_required_fields :: "jsval \<Rightarrow> bool" where
  "spec_required_fields td =
     ((case get_prop td ''amount'' of JNum x \<Rightarrow> 0 \<le> x | _ \<Rightarrow> False) \<and>
      (case get_prop td ''userId'' of JStr s \<Rightarrow> s \<noteq> [] | JNum n \<Rightarrow> True | _ \<Rightarrow> False) \<and>
      (case get_prop td ''type'' of JStr s \<Rightarrow> True | _ \<Rightarrow> False))"








text \<open>
  The scores of all \<open>calculate_score\<close> action results of the triggered rules of a
  report, and their mean in the words of the specification (0 if there are none).
\<close>

definition score_values :: "report \<Rightarrow> real list" where
  "score_values rep =
     map action_score
       (concat (map (\<lambda>r. filter is_score (actions r))
                  (filter (\<lambda>r. truthy (result r)) (results rep))))"

definition spec_riskScore :: "report \<Rightarrow> real" where
  "spec_riskScore rep =
     (if score_values rep = [] then 0
      else sum_list (score_values rep) / real (length (score_values rep)))"

section \<open>Validation agent (AIValidationAgent)\<close>

subsection \<open>Static analysis of a rule\<close>

text \<open>\<open>reduce((sum, cond) => sum + f(cond), 0)\<close> with an \<open>f\<close> that may throw.\<close>

fun sum_m :: "('a \<Rightarrow> error + nat) \<Rightarrow> 'a list \<Rightarrow> error + nat" where
  "sum_m f [] = Inr 0"
| "sum_m f (x # xs) =
     (case f x of
        Inl e \<Rightarrow> Inl e
      | Inr n \<Rightarrow> (case sum_m f xs of Inl e \<Rightarrow> Inl e | Inr m \<Rightarrow> Inr (n + m)))"

lemma sum_m_cong [fundef_cong]:
  "xs = ys \<Longrightarrow> (\<And>x. x \<in> set ys \<Longrightarrow> f x = g x) \<Longrightarrow> sum_m f xs = sum_m g ys"
  by (induction ys arbitrary: xs) (auto split: sum.splits)

text \<open>\<open>forEach\<close> with a callback that appends to the result and may throw.\<close>

fun concat_m :: "('a \<Rightarrow> error + 'b list) \<Rightarrow> 'a list \<Rightarrow> error + 'b list" where
  "concat_m f [] = Inr []"
| "concat_m f (x # xs) =
     (case f x of
        Inl e \<Rightarrow> Inl e
      | Inr ys \<Rightarrow> (case concat_m f xs of Inl e \<Rightarrow> Inl e | Inr zs \<Rightarrow> Inr (ys @ zs)))"

lemma concat_m_cong [fundef_cong]:
  "xs = ys \<Longrightarrow> (\<And>x. x \<in> set ys \<Longrightarrow> f x = g x) \<Longrightarrow> concat_m f xs = concat_m g ys"
  by (induction ys arbitrary: xs) (auto split: sum.splits)

function calculateConditionComplexity :: "jsval \<Rightarrow> nat \<Rightarrow> error + nat" where
  "calculateConditionComplexity conditions depth =
     (if \<not> truthy conditions then Inr 0
      else if truthy (get_prop conditions ''and'') then
        (case get_prop conditions ''and'' of
           JArr cs \<Rightarrow>
             (case sum_m (\<lambda>c. calculateConditionComplexity c (depth + 1)) cs of
                Inl e \<Rightarrow> Inl e
              | Inr n \<Rightarrow> Inr (depth + n))
         | _ \<Rightarrow> Inl (TypeError ''conditions.and.reduce is not a function''))
      else if truthy (get_prop conditions ''or'') then
        (case get_prop conditions ''or'' of
           JArr cs \<Rightarrow>
             (case sum_m (\<lambda>c. calculateConditionComplexity c (depth + 1)) cs of
                Inl e \<Rightarrow> Inl e
              | Inr n \<Rightarrow> Inr (depth + n))
         | _ \<Rightarrow> Inl (TypeError ''conditions.or.reduce is not a function''))
      else if truthy (get_prop conditions ''not'') then
        (case calculateConditionComplexity (get_prop conditions ''not'') (depth + 1) of
           Inl e \<Rightarrow> Inl e
         | Inr n \<Rightarrow> Inr (depth + (n + 1)))
      else Inr (depth + 1))"
  by pat_completeness auto
termination
proof (relation "measure (\<lambda>(c, d). size c)")
  show "wf (measure (\<lambda>(c, d). size c))" by simp
next
  fix conditions :: jsval and depth :: nat and x6 x
  assume "truthy (get_prop conditions ''and'')" "get_prop conditions ''and'' = JArr x6" "x \<in> set x6"
  then show "((x, depth + 1), (conditions, depth)) \<in> measure (\<lambda>(c, d). size c)"
    using size_get_prop [of "''and''" conditions] size_elem [of x x6] by simp
next
  fix conditions :: jsval and depth :: nat and x6 x
  assume "truthy (get_prop conditions ''or'')" "get_prop conditions ''or'' = JArr x6" "x \<in> set x6"
  then show "((x, depth + 1), (conditions, depth)) \<in> measure (\<lambda>(c, d). size c)"
    using size_get_prop [of "''or''" conditions] size_elem [of x x6] by simp
next
  fix conditions :: jsval and depth :: nat
  assume "truthy (get_prop conditions ''not'')"
  then show "((get_prop conditions ''not'', depth + 1), (conditions, depth))
               \<in> measure (\<lambda>(c, d). size c)"
    using size_get_prop [of "''not''" conditions] by simp
qed

declare calculateConditionComplexity.simps [simp del]

function flattenConditions :: "jsval \<Rightarrow> error + jsval list" where
  "flattenConditions conditions =
     (if \<not> truthy conditions then Inr []
      else if truthy (get_prop conditions ''and'') then
        (case get_prop conditions ''and'' of
           JArr cs \<Rightarrow> concat_m flattenConditions cs
         | _ \<Rightarrow> Inl (TypeError ''conditions.and.forEach is not a function''))
      else if truthy (get_prop conditions ''or'') then
        (case get_prop conditions ''or'' of
           JArr cs \<Rightarrow> concat_m flattenConditions cs
         | _ \<Rightarrow> Inl (TypeError ''conditions.or.forEach is not a function''))
      else if truthy (get_prop conditions ''not'') then
        flattenConditions (get_prop conditions ''not'')
      else if truthy (get_prop conditions ''field'') \<and> truthy (get_prop conditions ''operator'')
        then Inr [conditions]
      else Inr [])"
  by pat_completeness auto
termination
proof (relation "measure size")
  show "wf (measure size)" by simp
next
  fix conditions :: jsval and x6 x
  assume "truthy (get_prop conditions ''and'')" "get_prop conditions ''and'' = JArr x6" "x \<in> set x6"
  then show "(x, conditions) \<in> measure size"
    using size_get_prop [of "''and''" conditions] size_elem [of x x6] by simp
next
  fix conditions :: jsval and x6 x
  assume "truthy (get_prop conditions ''or'')" "get_prop conditions ''or'' = JArr x6" "x \<in> set x6"
  then show "(x, conditions) \<in> measure size"
    using size_get_prop [of "''or''" conditions] size_elem [of x x6] by simp
next
  fix conditions :: jsval
  assume "truthy (get_prop conditions ''not'')"
  then show "(get_prop conditions ''not'', conditions) \<in> measure size"
    using size_get_prop [of "''not''" conditions] by simp
qed

declare flattenConditions.simps [simp del]

function countConditions :: "jsval \<Rightarrow> error + nat" where
  "countConditions conditions =
     (if \<not> truthy conditions then Inr 0
      else if truthy (get_prop conditions ''and'') then
        (case get_prop conditions ''and'' of
           JArr cs \<Rightarrow> sum_m countConditions cs
         | _ \<Rightarrow> Inl (TypeError ''conditions.and.reduce is not a function''))
      else if truthy (get_prop conditions ''or'') then
        (case get_prop conditions ''or'' of
           JArr cs \<Rightarrow> sum_m countConditions cs
         | _ \<Rightarrow> Inl (TypeError ''conditions.or.reduce is not a function''))
      else if truthy (get_prop conditions ''not'') then
        countConditions (get_prop conditions ''not'')
      else Inr 1)"
  by pat_completeness auto
termination
proof (relation "measure size")
  show "wf (measure size)" by simp
next
  fix conditions :: jsval and x6 x
  assume "truthy (get_prop conditions ''and'')" "get_prop conditions ''and'' = JArr x6" "x \<in> set x6"
  then show "(x, conditions) \<in> measure size"
    using size_get_prop [of "''and''" conditions] size_elem [of x x6] by simp
next
  fix conditions :: jsval and x6 x
  assume "truthy (get_prop conditions ''or'')" "get_prop conditions ''or'' = JArr x6" "x \<in> set x6"
  then show "(x, conditions) \<in> measure size"
    using size_get_prop [of "''or''" conditions] size_elem [of x x6] by simp
next
  fix conditions :: jsval
  assume "truthy (get_prop conditions ''not'')"
  then show "(get_prop conditions ''not'', conditions) \<in> measure size"
    using size_get_prop [of "''not''" conditions] by simp
qed

declare countConditions.simps [simp del]

definition contradictoryPairs :: "(string \<times> string) list" where
  "contradictoryPairs =
     [(''equals'', ''not_equals''),
      (''greater_than'', ''less_than_or_equal''),
      (''less_than'', ''greater_than_or_equal''),
      (''contains'', ''not_contains''),
      (''in'', ''not_in'')]"

definition areConditionsContradictory :: "jsval \<Rightarrow> jsval \<Rightarrow> bool" where
  "areConditionsContradictory cond1 cond2 =
     (if \<not> strict_eq (get_prop cond1 ''field'') (get_prop cond2 ''field'') then False
      else list_ex (\<lambda>(op1, op2).
             (get_prop cond1 ''operator'' = JStr op1 \<and> get_prop cond2 ''operator'' = JStr op2) \<or>
             (get_prop cond1 ''operator'' = JStr op2 \<and> get_prop cond2 ''operator'' = JStr op1))
           contradictoryPairs)"

text \<open>The pairs \<open>(xs[i], xs[j])\<close> with \<open>i < j\<close>, in the order of the two loops.\<close>

fun pairs_of :: "'a list \<Rightarrow> ('a \<times> 'a) list" where
  "pairs_of [] = []"
| "pairs_of (x # xs) = map (Pair x) xs @ pairs_of xs"

definition findContradictoryConditions :: "jsval \<Rightarrow> error + (jsval \<times> jsval) list" where
  "findContradictoryConditions conditions =
     (case flattenConditions conditions of
        Inl e \<Rightarrow> Inl e
      | Inr flatConditions \<Rightarrow>
          Inr (filter (\<lambda>(a, b). areConditionsContradictory a b) (pairs_of flatConditions)))"

text \<open>An issue, without its message and suggestion texts.\<close>

record issue =
  itype :: string
  severity :: string

definition analyzeRuleLogic :: "jsval \<Rightarrow> error + issue list" where
  "analyzeRuleLogic rule =
     (case read_prop rule ''conditions'' of
        Inl e \<Rightarrow> Inl e
      | Inr conditions \<Rightarrow>
          (let issues0 = (if \<not> truthy conditions
                          then [\<lparr> itype = ''logic'', severity = ''high'' \<rparr>] else [])
           in case calculateConditionComplexity conditions 0 of
                Inl e \<Rightarrow> Inl e
              | Inr conditionComplexity \<Rightarrow>
                  (let issues1 = issues0 @
                         (if conditionComplexity > 10
                          then [\<lparr> itype = ''complexity'', severity = ''warning'' \<rparr>] else [])
                   in case findContradictoryConditions conditions of
                        Inl e \<Rightarrow> Inl e
                      | Inr contradictions \<Rightarrow>
                          Inr (issues1 @
                                 (if length contradictions > 0
                                  then [\<lparr> itype = ''logic'', severity = ''critical'' \<rparr>]
                                  else [])))))"

definition suspiciousPatterns :: "pattern list" where
  "suspiciousPatterns = [Rx_eval, Rx_function, Rx_new_Function, Rx_script]"

definition dataLeakagePatterns :: "pattern list" where
  "dataLeakagePatterns = [Rx_password, Rx_secret, Rx_token, Rx_key]"

definition analyzeRuleSecurity :: "jsenv \<Rightarrow> jsval \<Rightarrow> issue list" where
  "analyzeRuleSecurity L rule =
     (let ruleString = json_stringify L rule
      in map (\<lambda>p. \<lparr> itype = ''security'', severity = ''critical'' \<rparr>)
           (filter (\<lambda>p. regex_test L p ruleString) suspiciousPatterns)
         @ map (\<lambda>p. \<lparr> itype = ''security'', severity = ''warning'' \<rparr>)
             (filter (\<lambda>p. regex_test L p ruleString) dataLeakagePatterns))"

record logic_details =
  d_ruleId :: jsval
  conditionsCount :: nat
  actionsCount :: jsval

record validation_result =
  passed :: bool
  issues :: "issue list"
  score :: int
  details :: logic_details

definition validateRuleLogic :: "jsenv \<Rightarrow> jsval \<Rightarrow> error + validation_result" where
  "validateRuleLogic L data =
     (case read_prop data ''rule'' of
        Inl e \<Rightarrow> Inl e
      | Inr rule \<Rightarrow>
          (case analyzeRuleLogic rule of
             Inl e \<Rightarrow> Inl e
           | Inr logicIssues \<Rightarrow>
               (let all_issues = logicIssues @ analyzeRuleSecurity L rule;
                    sc = 100 - int (length all_issues) * 10
                in case countConditions (get_prop rule ''conditions'') of
                     Inl e \<Rightarrow> Inl e
                   | Inr n \<Rightarrow>
                       Inr \<lparr> passed = (sc \<ge> 70), issues = all_issues, score = sc,
                             details = \<lparr> d_ruleId = get_prop rule ''id'',
                                         conditionsCount = n,
                                         actionsCount =
                                           (if truthy (get_prop rule ''actions'')
                                            then get_prop (get_prop rule ''actions'') ''length''
                                            else JNum 0) \<rparr> \<rparr>)))"

text \<open>Whether a validation of a rule's logic reports a complexity issue.\<close>

definition has_complexity_issue :: "issue list \<Rightarrow> bool" where
  "has_complexity_issue xs = list_ex (\<lambda>i. itype i = ''complexity'') xs"

definition flags_complexity :: "jsenv \<Rightarrow> jsval \<Rightarrow> bool" where
  "flags_complexity L data =
     (case validateRuleLogic L data of
        Inl e \<Rightarrow> False
      | Inr res \<Rightarrow> has_complexity_issue (issues res))"

text \<open>
  A condition tree as a tagged variant, the documents it stands for, and over the tree:
  the sum of the depths of all its nodes, the number of its leaves and of its \<open>not\<close>
  nodes.
\<close>

datatype cond =
    CAnd "cond list"
  | COr "cond list"
  | CNot cond
  | CLeaf string string jsval

fun encode :: "cond \<Rightarrow> jsval" where
  "encode (CAnd cs) = And_node (map encode cs)"
| "encode (COr cs) = Or_node (map encode cs)"
| "encode (CNot c) = Not_node (encode c)"
| "encode (CLeaf f operator v) = Leaf f operator v"

fun node_depths :: "cond \<Rightarrow> nat \<Rightarrow> nat" where
  "node_depths (CAnd cs) d = d + sum_list (map (\<lambda>c. node_depths c (d + 1)) cs)"
| "node_depths (COr cs) d = d + sum_list (map (\<lambda>c. node_depths c (d + 1)) cs)"
| "node_depths (CNot c) d = d + node_depths c (d + 1)"
| "node_depths (CLeaf f operator v) d = d"

fun leaf_count :: "cond \<Rightarrow> nat" where
  "leaf_count (CAnd cs) = sum_list (map leaf_count cs)"
| "leaf_count (COr cs) = sum_list (map leaf_count cs)"
| "leaf_count (CNot c) = leaf_count c"
| "leaf_count (CLeaf f operator v) = 1"

fun not_count :: "cond \<Rightarrow> nat" where
  "not_count (CAnd cs) = sum_list (map not_count cs)"
| "not_count (COr cs) = sum_list (map not_count cs)"
| "not_count (CNot c) = not_count c + 1"
| "not_count (CLeaf f operator v) = 0"

text \<open>
  The complexity in the words of the specification: the sum over the leaves of their
  nesting depth + 1, each \<open>not\<close> node adding 1.
\<close>

fun spec_complexity :: "cond \<Rightarrow> nat \<Rightarrow> nat" where
  "spec_complexity (CAnd cs) d = sum_list (map (\<lambda>c. spec_complexity c (d + 1)) cs)"
| "spec_complexity (COr cs) d = sum_list (map (\<lambda>c. spec_complexity c (d + 1)) cs)"
| "spec_complexity (CNot c) d = spec_complexity c (d + 1) + 1"
| "spec_complexity (CLeaf f operator v) d = d + 1"

subsection \<open>Validation history and anomaly detection\<close>

record rule_metrics =
  executionCount :: nat
  totalExecutionTime :: real
  averageExecutionTime :: real
  successCount :: nat
  errorCount :: nat
  lastExecuted :: "string option"

record anomaly =
  an_type :: string
  an_timestamp :: string
  an_errorRate :: real
  an_threshold :: real

datatype agent_event =
    ValidationCompleted jsval
  | ValidationFailed jsval string
  | AnomalyDetected string real real

text \<open>
  The part of the agent's state that the handlers of a finished validation and the
  anomaly detector read and write. History entries are documents: the agent pushes
  objects it builds, and at start-up the history is whatever the history file holds.
  \<open>history_file\<close> is the last history written by \<open>saveValidationHistory\<close>.
\<close>

record agent =
  validationHistory :: "jsval list"
  rulePerformanceMetrics :: "(jsval \<times> rule_metrics) list"
  anomalies :: "anomaly list"
  executionTimeThreshold :: real
  errorRateThreshold :: real
  agent_emitted :: "agent_event list"
  history_file :: "jsval list option"

text \<open>The state the constructor leaves.\<close>

definition new_agent :: agent where
  "new_agent =
     \<lparr> validationHistory = [], rulePerformanceMetrics = [], anomalies = [],
       executionTimeThreshold = 1000, errorRateThreshold = 5 / 100,
       agent_emitted = [], history_file = None \<rparr>"

text \<open>\<open>o.k = v\<close> on the entries of an object: an existing key keeps its place.\<close>

definition assign :: "(string \<times> jsval) list \<Rightarrow> string \<Rightarrow> jsval \<Rightarrow> (string \<times> jsval) list" where
  "assign kvs k v =
     (if map_of kvs k = None then kvs @ [(k, v)]
      else map (\<lambda>(k', v'). if k' = k then (k', v) else (k', v')) kvs)"

definition new_metrics :: rule_metrics where
  "new_metrics =
     \<lparr> executionCount = 0, totalExecutionTime = 0, averageExecutionTime = 0,
       successCount = 0, errorCount = 0, lastExecuted = None \<rparr>"

text \<open>
  \<open>updateRulePerformanceMetrics\<close>. \<open>result.executionTime\<close> is the number that
  \<open>processValidation\<close> stores; anything else counts as 0 here.
\<close>

definition updateRulePerformanceMetrics ::
  "string \<Rightarrow> jsval \<Rightarrow> jsval \<Rightarrow> (jsval \<times> rule_metrics) list \<Rightarrow> (jsval \<times> rule_metrics) list" where
  "updateRulePerformanceMetrics now rid res table =
     (let table1 = (if map_of table rid = None then table @ [(rid, new_metrics)] else table);
          bump = (\<lambda>m.
            (let n = executionCount m + 1;
                 total = totalExecutionTime m +
                   (case get_prop res ''executionTime'' of JNum x \<Rightarrow> x | _ \<Rightarrow> 0)
             in m \<lparr> executionCount := n,
                    totalExecutionTime := total,
                    averageExecutionTime := total / real n,
                    lastExecuted := Some now,
                    successCount := (if truthy (get_prop res ''passed'')
                                     then successCount m + 1 else successCount m),
                    errorCount := (if truthy (get_prop res ''passed'')
                                   then errorCount m else errorCount m + 1) \<rparr>))
      in map (\<lambda>(k, m). if k = rid then (k, bump m) else (k, m)) table1)"

text \<open>
  \<open>handleValidationResult\<close>, for a validation object given by its entries. Reading
  \<open>result.details\<close> throws when the result is \<open>null\<close> or \<open>undefined\<close>, after the history
  has been written: the error, if any, is returned beside the state.
\<close>

definition handleValidationResult ::
  "string \<Rightarrow> (string \<times> jsval) list \<Rightarrow> jsval \<Rightarrow> agent \<Rightarrow> error option \<times> agent" where
  "handleValidationResult now validation res st =
     (let validation1 = assign (assign validation ''status'' (JStr ''completed'')) ''result'' res;
          pushed = validationHistory st @ [JObj (assign validation1 ''result'' res)];
          history = (if length pushed > 1000 then drop (length pushed - 1000) pushed else pushed);
          st1 = st \<lparr> validationHistory := history \<rparr>
      in if nullish res then
           (Some (TypeError ''Cannot read properties of null or undefined: details''), st1)
         else
           (let det = get_prop res ''details'';
                st2 = (if truthy det \<and> truthy (get_prop det ''ruleId'')
                       then st1 \<lparr> rulePerformanceMetrics :=
                                    updateRulePerformanceMetrics now (get_prop det ''ruleId'') res
                                      (rulePerformanceMetrics st1) \<rparr>
                       else st1);
                st3 = st2 \<lparr> agent_emitted := agent_emitted st2 @
                                              [ValidationCompleted (JObj validation1)] \<rparr>
            in (None,
                if length history mod 10 = 0 then st3 \<lparr> history_file := Some history \<rparr>
                else st3)))"

definition handleValidationError :: "(string \<times> jsval) list \<Rightarrow> error \<Rightarrow> agent \<Rightarrow> agent" where
  "handleValidationError validation err st =
     (let validation1 = assign (assign validation ''status'' (JStr ''failed''))
                          ''error'' (JStr (message err))
      in st \<lparr> validationHistory := validationHistory st @ [JObj validation1],
              agent_emitted := agent_emitted st @
                                 [ValidationFailed (JObj validation1) (message err)] \<rparr>)"

text \<open>
  \<open>detectAnomalies\<close>. Reading \<open>v.passed\<close> of an entry that is \<open>null\<close> or \<open>undefined\<close>
  throws.
\<close>

definition detectAnomalies :: "string \<Rightarrow> agent \<Rightarrow> error + agent" where
  "detectAnomalies now st =
     (let history = validationHistory st;
          recentValidations = drop (length history - 100) history
      in if length recentValidations < 10 then Inr st
         else if list_ex nullish recentValidations then
           Inl (TypeError ''Cannot read properties of null or undefined: passed'')
         else
           (let errorRate =
                  real (length (filter (\<lambda>v. \<not> truthy (get_prop v ''passed'')) recentValidations))
                  / real (length recentValidations)
            in if errorRate > errorRateThreshold st then
                 Inr (st \<lparr> anomalies := anomalies st @
                             [\<lparr> an_type = ''high_error_rate'', an_timestamp = now,
                                an_errorRate = errorRate,
                                an_threshold = errorRateThreshold st \<rparr>],
                           agent_emitted := agent_emitted st @
                             [AnomalyDetected ''high_error_rate'' errorRate
                                (errorRateThreshold st)] \<rparr>)
               else Inr st))"

text \<open>
  A validation as \<open>queueValidation\<close> builds it for a performance check, and the result
  \<open>processValidation\<close> returns for it (\<open>validatePerformance\<close> always passes).
\<close>

definition performance_validation :: "(string \<times> jsval) list" where
  "performance_validation =
     [(''id'', JStr ''val_1''), (''timestamp'', JStr ''t0''), (''type'', JStr ''performance''),
      (''priority'', JStr ''normal''),
      (''data'', JObj [(''processingTime'', JNum 3), (''ruleCount'', JNum 3),
                        (''transactionId'', JStr ''t1'')]),
      (''status'', JStr ''queued'')]"

definition performance_result :: jsval where
  "performance_result =
     JObj [(''passed'', JBool True), (''issues'', JArr []), (''score'', JNum 100),
           (''details'', JObj [(''type'', JStr ''performance'')]),
           (''executionTime'', JNum 0), (''validationId'', JStr ''val_1'')]"

text \<open>Whether the result recorded in a history entry passed.\<close>

definition entry_passed :: "jsval \<Rightarrow> bool" where
  "entry_passed v = truthy (get_prop (get_prop v ''result'') ''passed'')"

text \<open>The history entry pushed when that validation completes with that result.\<close>

definition completed_entry :: jsval where
  "completed_entry =
     JObj [(''id'', JStr ''val_1''), (''timestamp'', JStr ''t0''), (''type'', JStr ''performance''),
      (''priority'', JStr ''normal''),
      (''data'', JObj [(''processingTime'', JNum 3), (''ruleCount'', JNum 3),
                        (''transactionId'', JStr ''t1'')]),
      (''status'', JStr ''completed''), (''result'', performance_result)]"

section \<open>Properties of the condition evaluator\<close>

lemma baseGet_undefined: "baseGet L JUndefined ks = JUndefined"
  by (cases ks) auto

lemma lookup_nullish: "nullish v \<Longrightarrow> lookup L v k = None"
  by (cases v) (simp_all add: lookup_def)

lemma path_unresolved_baseGet: "path_unresolved L p v \<Longrightarrow> baseGet L v p = JUndefined"
proof (induction p arbitrary: v)
  case Nil
  then show ?case by simp
next
  case (Cons k ks)
  show ?case
  proof (cases "lookup L v k")
    case None
    then show ?thesis by (simp add: baseGet_undefined)
  next
    case (Some v')
    with Cons.prems have "path_unresolved L ks v'" by simp
    then have "baseGet L v' ks = JUndefined" by (rule Cons.IH)
    with Some show ?thesis by simp
  qed
qed

lemma field_unresolved_getFieldValue:
  "field_unresolved L f ctx \<Longrightarrow> getFieldValue L (JStr f) ctx = JUndefined"
  by (simp add: field_unresolved_def getFieldValue_def lodash_get_def path_unresolved_baseGet)

lemma get_prop_Leaf:
  "get_prop (Leaf f operator v) ''and'' = JUndefined"
  "get_prop (Leaf f operator v) ''or'' = JUndefined"
  "get_prop (Leaf f operator v) ''not'' = JUndefined"
  "get_prop (Leaf f operator v) ''field'' = JStr f"
  "get_prop (Leaf f operator v) ''operator'' = JStr operator"
  "get_prop (Leaf f operator v) ''value'' = v"
  by (simp_all add: Leaf_def get_prop_def)

lemma truthy_Leaf: "truthy (Leaf f operator v)"
  by (simp add: Leaf_def)

lemma parseCondition_Leaf:
  "f \<noteq> [] \<Longrightarrow> operator \<noteq> [] \<Longrightarrow>
   parseCondition L (Leaf f operator v) ctx =
     (case operators L operator of
        None \<Rightarrow> Inl (Error (''Unsupported operator: '' @ operator))
      | Some operatorFunc \<Rightarrow>
          operatorFunc (getFieldValue L (JStr f) (default_context ctx)) v)"
  by (subst parseCondition.simps)
     (simp add: get_prop_Leaf truthy_Leaf js_String_def split: option.splits)

lemma operators_is_empty: "operators L ''is_empty'' = Some (\<lambda>a b. Inr (JBool (is_empty_val a)))"
  by (simp add: operators_def own_operators_def)

lemma operators_equals: "operators L ''equals'' = Some (\<lambda>a b. Inr (JBool (strict_eq a b)))"
  by (simp add: operators_def own_operators_def)

text \<open>
  C1 (as the code has it). A leaf whose field resolves to nothing in the context (some key along
  the path, as lodash parses it, is neither an own property nor an inherited member of
  the value reached; the context is the empty object when it is \<open>undefined\<close>) does not
  throw: with operator \<open>is_empty\<close> it evaluates to true, and with operator \<open>equals\<close>
  against any value other than \<open>undefined\<close> it evaluates to false.
\<close>

theorem unresolved_field_leaf:
  assumes "f \<noteq> []" and "field_unresolved L f (default_context ctx)"
  shows "parseCondition L (Leaf f ''is_empty'' v) ctx = Inr (JBool True) \<and>
         (v \<noteq> JUndefined \<longrightarrow> parseCondition L (Leaf f ''equals'' v) ctx = Inr (JBool False))"
proof -
  have fv: "getFieldValue L (JStr f) (default_context ctx) = JUndefined"
    using assms(2) by (rule field_unresolved_getFieldValue)
  have e: "parseCondition L (Leaf f ''is_empty'' v) ctx = Inr (JBool True)"
    using assms(1) fv by (simp add: parseCondition_Leaf operators_is_empty is_empty_val_def)
  have q: "v \<noteq> JUndefined \<longrightarrow> parseCondition L (Leaf f ''equals'' v) ctx = Inr (JBool False)"
    using assms(1) fv by (auto simp add: parseCondition_Leaf operators_equals)
  from e q show ?thesis by simp
qed

lemma stringToPath_location_country:
  "stringToPath ''location.country'' = [''location'', ''country'']"
  by (simp add: stringToPath_def path_char_def bracket_char_def open_bracket_def
      close_bracket_def empty_key_here_def separator_next_def starts_empty_brackets_def)

lemma castPath_location_country:
  "castPath L (JStr ''location.country'') (JObj [(''amount'', JNum 50)]) =
     [''location'', ''country'']"
  by (simp add: castPath_def isKey_def reIsPlainProp_def is_word_char_def lookup_def
      object_prototype_def object_prototype_methods_def stringToPath_location_country)

theorem unresolved_field_leaf_witness:
  "parseCondition sample_env (Leaf ''location.country'' ''is_empty'' JUndefined)
     (JObj [(''amount'', JNum 50)]) = Inr (JBool True) \<and>
   parseCondition sample_env (Leaf ''location.country'' ''equals'' (JStr ''US''))
     (JObj [(''amount'', JNum 50)]) = Inr (JBool False)"
proof -
  have a: "field_unresolved sample_env ''location.country''
             (default_context (JObj [(''amount'', JNum 50)]))"
    by (simp add: field_unresolved_def default_context_def castPath_location_country
        lookup_def object_prototype_def object_prototype_methods_def)
  have n: "''location.country'' \<noteq> []" by simp
  show ?thesis
    using unresolved_field_leaf [OF n a, of JUndefined]
          unresolved_field_leaf [OF n a, of "JStr ''US''"]
    by simp
qed

text \<open>
  The claim as stated fails: the field \<open>constructor\<close> is absent from the context
  \<open>{amount: 50}\<close>, and the lookup finds the member that every object inherits, so the
  leaf with \<open>is_empty\<close> evaluates to false.
\<close>

theorem absent_field_counterexample:
  "field_absent ''constructor'' (JObj [(''amount'', JNum 50)]) \<and>
   parseCondition sample_env (Leaf ''constructor'' ''is_empty'' JUndefined)
     (JObj [(''amount'', JNum 50)]) = Inr (JBool False)"
proof -
  have a: "field_absent ''constructor'' (JObj [(''amount'', JNum 50)])"
    by (simp add: field_absent_def)
  have g: "getFieldValue sample_env (JStr ''constructor'') (JObj [(''amount'', JNum 50)]) =
             JBuiltin ''Object''"
    by (simp add: getFieldValue_def castPath_def isKey_def reIsPlainProp_def is_word_char_def
        lodash_get_def lookup_def object_prototype_def)
  have p: "parseCondition sample_env (Leaf ''constructor'' ''is_empty'' JUndefined)
     (JObj [(''amount'', JNum 50)]) = Inr (JBool False)"
    by (simp add: parseCondition_Leaf operators_is_empty default_context_def g
        is_empty_val_def)
  from a p show ?thesis by simp
qed

text \<open>
  C5 (as the code has it). An \<open>and\<close> node with no children evaluates to true and an
  \<open>or\<close> node with no children to false, in every context; and for every condition \<open>c\<close>
  that is truthy (every object is), evaluating the negation of \<open>c\<close> gives the boolean
  negation of what \<open>c\<close> evaluates to, and throws what \<open>c\<close> throws.
\<close>

theorem empty_and_or_not:
  "parseCondition L (And_node []) ctx = Inr (JBool True) \<and>
   parseCondition L (Or_node []) ctx = Inr (JBool False) \<and>
   (truthy c \<longrightarrow>
      parseCondition L (Not_node c) ctx =
        (case parseCondition L c ctx of
           Inl e \<Rightarrow> Inl e
         | Inr v \<Rightarrow> Inr (JBool (\<not> truthy v))))"
proof -
  have a: "parseCondition L (And_node []) ctx = Inr (JBool True)"
    by (subst parseCondition.simps) (simp add: And_node_def get_prop_def)
  have b: "parseCondition L (Or_node []) ctx = Inr (JBool False)"
    by (subst parseCondition.simps) (simp add: Or_node_def get_prop_def)
  have n: "truthy c \<longrightarrow>
      parseCondition L (Not_node c) ctx =
        (case parseCondition L c ctx of
           Inl e \<Rightarrow> Inl e
         | Inr v \<Rightarrow> Inr (JBool (\<not> truthy v)))"
    by (subst parseCondition.simps) (simp add: Not_node_def get_prop_def negate_def)
  from a b n show ?thesis by simp
qed

lemma amount_equals_50:
  "parseCondition sample_env (Leaf ''amount'' ''equals'' (JNum 50))
     (JObj [(''id'', JStr ''t1''), (''amount'', JNum 50)]) = Inr (JBool True)"
  by (simp add: parseCondition_Leaf default_context_def operators_equals getFieldValue_def castPath_def isKey_def
      reIsPlainProp_def is_word_char_def lodash_get_def lookup_def)

theorem empty_and_or_not_witness:
  "parseCondition sample_env (Not_node (Leaf ''amount'' ''equals'' (JNum 50)))
     (JObj [(''id'', JStr ''t1''), (''amount'', JNum 50)]) = Inr (JBool False)"
proof -
  have t: "truthy (Leaf ''amount'' ''equals'' (JNum 50))" by (simp add: Leaf_def)
  show ?thesis
    using empty_and_or_not [of sample_env "JObj [(''id'', JStr ''t1''), (''amount'', JNum 50)]"
        "Leaf ''amount'' ''equals'' (JNum 50)"] t amount_equals_50
    by simp
qed

text \<open>
  The claim as stated fails for a child that is not truthy: the node \<open>{not: null}\<close> is
  not seen as a \<open>not\<close> node, it is taken for a leaf and throws, while \<open>null\<close> itself
  evaluates to false.
\<close>

theorem not_of_null_counterexample:
  "parseCondition sample_env JNull (JObj [(''amount'', JNum 50)]) = Inr (JBool False) \<and>
   parseCondition sample_env (Not_node JNull) (JObj [(''amount'', JNum 50)]) =
     Inl (Error ''Condition must have field and operator'')"
proof -
  have a: "parseCondition sample_env JNull (JObj [(''amount'', JNum 50)]) = Inr (JBool False)"
    by (subst parseCondition.simps) simp
  have b: "parseCondition sample_env (Not_node JNull) (JObj [(''amount'', JNum 50)]) =
     Inl (Error ''Condition must have field and operator'')"
    by (subst parseCondition.simps) (simp add: Not_node_def get_prop_def)
  from a b show ?thesis by simp
qed

section \<open>Properties of the rule engine\<close>






text \<open>
  C10. A \<open>send_notification\<close> action returns the configured recipient and the message
  template with its placeholders filled in. The callback keeps the placeholder whenever
  the looked-up value is falsy, so a field that is present with the value \<open>0\<close> is not
  filled in: for the template \<open>Amount {amount}\<close> and a transaction with \<open>amount: 0\<close>
  the message is \<open>Amount {amount}\<close>, not \<open>Amount 0\<close>.
\<close>

theorem send_notification_zero_amount:
  "executeAction sample_env
     (JObj [(''type'', JStr ''send_notification''),
            (''config'', JObj [(''recipient'', JStr ''ops@company.com''),
                               (''message'', JStr ''Amount {amount}'')])])
     (JObj [(''amount'', JNum 0), (''userId'', JStr ''u1''), (''type'', JStr ''transfer'')])
   = Inr (NotificationSent (JStr ''ops@company.com'') ''Amount {amount}'')"
  by (simp add: executeAction_def read_prop_def get_prop_def interpolateMessage_def
      placeholder_value_def getFieldValue_def castPath_def isKey_def reIsPlainProp_def
      is_word_char_def lodash_get_def lookup_def)

section \<open>Properties of the transaction pipeline\<close>

lemma isValid_iff: "isValidTransaction td = has_required_fields td"
  by (cases td)
     (auto simp: isValidTransaction_def has_required_fields_def typeof_object_def has_prop_def
        get_prop_def array_index_def is_digit_def split: option.splits jsval.splits)

text \<open>
  C3 (as the code has it). \<open>monitorTransaction\<close> returns the id of the transaction and
  appends the transaction to the inbound queue exactly when the submitted document is an
  object that has the keys \<open>amount\<close>, \<open>userId\<close> and \<open>type\<close> and whose \<open>amount\<close> is a
  number that is not negative; otherwise it throws \<open>Invalid transaction data provided\<close>
  and leaves the state, the queue included, as it was. Nothing is asked of the values of
  \<open>userId\<close> and \<open>type\<close>.
\<close>

theorem monitorTransaction_accepts:
  "(has_required_fields td \<longrightarrow>
      fst (monitorTransaction uuid now td st) = Inr (tx_id (enhanceTransaction uuid now td)) \<and>
      transactionQueue (snd (monitorTransaction uuid now td st)) =
        transactionQueue st @ [enhanceTransaction uuid now td]) \<and>
   (\<not> has_required_fields td \<longrightarrow>
      monitorTransaction uuid now td st = (Inl (Error ''Invalid transaction data provided''), st))"
  by (simp add: monitorTransaction_def isValid_iff Let_def)

theorem monitorTransaction_accepts_witness:
  "fst (monitorTransaction ''id-1'' ''t0''
          (JObj [(''amount'', JNum 50), (''userId'', JStr ''u2''), (''type'', JStr ''transfer'')])
          new_monitor) =
     Inr (tx_id (enhanceTransaction ''id-1'' ''t0''
          (JObj [(''amount'', JNum 50), (''userId'', JStr ''u2''), (''type'', JStr ''transfer'')]))) \<and>
   monitorTransaction ''id-1'' ''t0'' (JObj [(''amount'', JNum (- 1))]) new_monitor =
     (Inl (Error ''Invalid transaction data provided''), new_monitor)"
proof -
  have a: "has_required_fields
             (JObj [(''amount'', JNum 50), (''userId'', JStr ''u2''), (''type'', JStr ''transfer'')])"
    by (simp add: has_required_fields_def)
  have b: "\<not> has_required_fields (JObj [(''amount'', JNum (- 1))])"
    by (simp add: has_required_fields_def)
  show ?thesis
    using a b
      monitorTransaction_accepts [of
        "JObj [(''amount'', JNum 50), (''userId'', JStr ''u2''), (''type'', JStr ''transfer'')]"
        "''id-1''" "''t0''" new_monitor]
      monitorTransaction_accepts [of "JObj [(''amount'', JNum (- 1))]" "''id-1''" "''t0''"
        new_monitor]
    by simp
qed

text \<open>
  The claim as stated fails: a document whose \<open>userId\<close> is the empty string and whose
  \<open>type\<close> is \<open>null\<close> does not carry the required fields of the specification, and yet
  it is accepted and queued.
\<close>

theorem monitorTransaction_required_fields_counterexample:
  "\<not> spec_required_fields
       (JObj [(''amount'', JNum 5), (''userId'', JStr []), (''type'', JNull)]) \<and>
   fst (monitorTransaction ''id-1'' ''t0''
          (JObj [(''amount'', JNum 5), (''userId'', JStr []), (''type'', JNull)]) new_monitor) =
     Inr (JStr ''id-1'') \<and>
   map tx_id (transactionQueue (snd (monitorTransaction ''id-1'' ''t0''
          (JObj [(''amount'', JNum 5), (''userId'', JStr []), (''type'', JNull)]) new_monitor))) =
     [JStr ''id-1'']"
  by (simp add: spec_required_fields_def get_prop_def monitorTransaction_def isValid_iff
      has_required_fields_def enhanceTransaction_def new_monitor_def Let_def)

lemma inner_fold:
  "foldl (\<lambda>(total, n) action. (total + action_score action, Suc n)) (t0, n0) xs =
     (t0 + sum_list (map action_score xs), n0 + length xs)"
  by (induction xs arbitrary: t0 n0) (auto simp: algebra_simps)

lemma outer_fold:
  "foldl (\<lambda>acc rule. foldl (\<lambda>(total, n) action. (total + action_score action, Suc n))
                          acc (filter is_score (actions rule))) (t0, n0) rs =
     (t0 + sum_list (map action_score (concat (map (\<lambda>r. filter is_score (actions r)) rs))),
      n0 + length (concat (map (\<lambda>r. filter is_score (actions r)) rs)))"
  by (induction rs arbitrary: t0 n0) (auto simp: inner_fold algebra_simps)

lemma risk_closed:
  "calculateOverallRiskScore rs =
     (let xs = map action_score (concat (map (\<lambda>r. filter is_score (actions r)) rs))
      in if xs = [] then 0 else js_round (sum_list xs / real (length xs)))"
  by (cases "rs = []") (simp_all add: calculateOverallRiskScore_def outer_fold Let_def)

text \<open>
  C4 (as the code has it). The risk score of a summary is the mean of the scores of all
  \<open>calculate_score\<close> action results of the triggered rules, rounded to the nearest
  integer by \<open>Math.round\<close> (0 if there are none); and the recommendation is
  \<open>REVIEW_REQUIRED\<close> if a triggered rule has a flag action that succeeded, else
  \<open>MONITOR_CLOSELY\<close> for more than 2 triggered rules, else \<open>NORMAL_MONITORING\<close> for at
  least 1, else \<open>APPROVED\<close>.
\<close>

theorem summary_score_and_recommendation:
  "riskScore (createResultSummary rep) =
     (if score_values rep = [] then 0
      else js_round (sum_list (score_values rep) / real (length (score_values rep)))) \<and>
   recommendation (createResultSummary rep) =
     (if list_ex (\<lambda>r. truthy (result r) \<and> list_ex is_flag (actions r)) (results rep)
      then ''REVIEW_REQUIRED''
      else if length (filter (\<lambda>r. truthy (result r)) (results rep)) > 2 then ''MONITOR_CLOSELY''
      else if length (filter (\<lambda>r. truthy (result r)) (results rep)) \<ge> 1
      then ''NORMAL_MONITORING''
      else ''APPROVED'')"
proof -
  have f: "(filter (\<lambda>r. list_ex is_flag (actions r))
              (filter (\<lambda>r. truthy (result r)) (results rep)) \<noteq> []) =
        list_ex (\<lambda>r. truthy (result r) \<and> list_ex is_flag (actions r)) (results rep)"
    by (auto simp: filter_empty_conv list_ex_iff)
  have a: "riskScore (createResultSummary rep) =
     (if score_values rep = [] then 0
      else js_round (sum_list (score_values rep) / real (length (score_values rep))))"
    by (auto simp: createResultSummary_def risk_closed score_values_def Let_def)
  have b: "recommendation (createResultSummary rep) =
     (if list_ex (\<lambda>r. truthy (result r) \<and> list_ex is_flag (actions r)) (results rep)
      then ''REVIEW_REQUIRED''
      else if length (filter (\<lambda>r. truthy (result r)) (results rep)) > 2 then ''MONITOR_CLOSELY''
      else if length (filter (\<lambda>r. truthy (result r)) (results rep)) \<ge> 1
      then ''NORMAL_MONITORING''
      else ''APPROVED'')"
    using f by (auto simp: createResultSummary_def generateRecommendation_def Let_def Suc_le_eq)
  from a b show ?thesis by simp
qed

text \<open>
  The claim as stated fails: with two scores 30 and 61 in one triggered rule the mean is
  45.5 and the risk score is 46.
\<close>

theorem riskScore_mean_counterexample:
  "riskScore (createResultSummary
     \<lparr> report_transactionId = JStr ''t1'', totalRules = 1, passedRules = 1, failedRules = 0,
       errors = 0,
       results = [\<lparr> ruleId = JStr ''r1'', ruleName = JStr ''R'', result = JBool True,
         actions = [\<lparr> atype = JStr ''calculate_score'', config = JNull,
                      outcome = Succeeded (Score (Some 30) (JNum 80)) \<rparr>,
                    \<lparr> atype = JStr ''calculate_score'', config = JNull,
                      outcome = Succeeded (Score (Some 61) (JNum 80)) \<rparr>],
         error = None, transactionId = JStr ''t1'' \<rparr>] \<rparr>) = 46 \<and>
   spec_riskScore
     \<lparr> report_transactionId = JStr ''t1'', totalRules = 1, passedRules = 1, failedRules = 0,
       errors = 0,
       results = [\<lparr> ruleId = JStr ''r1'', ruleName = JStr ''R'', result = JBool True,
         actions = [\<lparr> atype = JStr ''calculate_score'', config = JNull,
                      outcome = Succeeded (Score (Some 30) (JNum 80)) \<rparr>,
                    \<lparr> atype = JStr ''calculate_score'', config = JNull,
                      outcome = Succeeded (Score (Some 61) (JNum 80)) \<rparr>],
         error = None, transactionId = JStr ''t1'' \<rparr>] \<rparr> = 91 / 2"
  by (simp add: createResultSummary_def risk_closed score_values_def is_score_def success_def
      action_score_def js_round_def spec_riskScore_def Let_def)

subsection \<open>Retry of a failing transaction\<close>






lemma fire_timer_head:
  "i < length (timers u) \<Longrightarrow> timers u ! i = (d, t) \<Longrightarrow>
   transactionQueue (fire_timer i u) = t # transactionQueue u"
  by (simp add: fire_timer_def)






















section \<open>Properties of the validation agent\<close>

lemma sum_m_map:
  "(\<And>x. x \<in> set xs \<Longrightarrow> f (h x) = Inr (g x)) \<Longrightarrow>
   sum_m f (map h xs) = Inr (sum_list (map g xs))"
  by (induction xs) auto

lemma get_prop_nodes:
  "get_prop (And_node cs) ''and'' = JArr cs"
  "get_prop (Or_node cs) ''and'' = JUndefined"
  "get_prop (Or_node cs) ''or'' = JArr cs"
  "get_prop (Not_node c) ''and'' = JUndefined"
  "get_prop (Not_node c) ''or'' = JUndefined"
  "get_prop (Not_node c) ''not'' = c"
  by (simp_all add: And_node_def Or_node_def Not_node_def get_prop_def)

lemma truthy_nodes: "truthy (And_node cs)" "truthy (Or_node cs)" "truthy (Not_node c)"
  by (simp_all add: And_node_def Or_node_def Not_node_def)

lemma truthy_encode: "truthy (encode t)"
  by (cases t) (simp_all add: truthy_nodes truthy_Leaf)

lemma complexity_encode:
  "calculateConditionComplexity (encode t) d = Inr (node_depths t d + leaf_count t + not_count t)"
proof (induction t arbitrary: d)
  case (CAnd cs)
  have "sum_m (\<lambda>c. calculateConditionComplexity c (d + 1)) (map encode cs) =
          Inr (sum_list (map (\<lambda>c. node_depths c (d + 1) + leaf_count c + not_count c) cs))"
    by (rule sum_m_map) (simp add: CAnd.IH)
  then show ?case
    by (subst calculateConditionComplexity.simps)
       (simp add: get_prop_nodes truthy_nodes sum_list_addf)
next
  case (COr cs)
  have "sum_m (\<lambda>c. calculateConditionComplexity c (d + 1)) (map encode cs) =
          Inr (sum_list (map (\<lambda>c. node_depths c (d + 1) + leaf_count c + not_count c) cs))"
    by (rule sum_m_map) (simp add: COr.IH)
  then show ?case
    by (subst calculateConditionComplexity.simps)
       (simp add: get_prop_nodes truthy_nodes sum_list_addf)
next
  case (CNot t)
  show ?case
    by (subst calculateConditionComplexity.simps)
       (simp add: get_prop_nodes truthy_nodes truthy_encode CNot.IH)
next
  case (CLeaf f operator v)
  show ?case
    by (subst calculateConditionComplexity.simps) (simp add: get_prop_Leaf truthy_Leaf)
qed

lemma has_complexity_append:
  "has_complexity_issue (xs @ ys) = (has_complexity_issue xs \<or> has_complexity_issue ys)"
  by (simp add: has_complexity_issue_def)

lemma no_complexity_security: "\<not> has_complexity_issue (analyzeRuleSecurity L rule)"
  by (auto simp: has_complexity_issue_def analyzeRuleSecurity_def Let_def list_ex_iff)

lemma analyzeRuleLogic_complexity:
  "analyzeRuleLogic rule = Inr xs \<Longrightarrow>
   has_complexity_issue xs =
     (case calculateConditionComplexity (get_prop rule ''conditions'') 0 of
        Inr n \<Rightarrow> 10 < n | Inl e \<Rightarrow> False)"
  by (auto simp: analyzeRuleLogic_def read_prop_def Let_def has_complexity_issue_def
      split: if_splits sum.splits)

text \<open>
  C9 (as the code has it). A validation of a rule's logic reports a complexity issue
  exactly when \<open>calculateConditionComplexity\<close> of the rule's conditions exceeds 10; and
  for a condition tree that complexity is the sum of the nesting depths of all its nodes
  (the \<open>and\<close>, \<open>or\<close> and \<open>not\<close> nodes as well as the leaves), plus 1 for each leaf and 1
  for each \<open>not\<close> node.
\<close>

theorem complexity_flag:
  "(validateRuleLogic L data = Inr res \<longrightarrow>
      has_complexity_issue (issues res) =
        (case calculateConditionComplexity (get_prop (get_prop data ''rule'') ''conditions'') 0 of
           Inr n \<Rightarrow> 10 < n | Inl e \<Rightarrow> False)) \<and>
   calculateConditionComplexity (encode t) d =
     Inr (node_depths t d + leaf_count t + not_count t)"
proof (intro conjI impI)
  assume v: "validateRuleLogic L data = Inr res"
  then obtain xs where a: "analyzeRuleLogic (get_prop data ''rule'') = Inr xs"
    and i: "issues res = xs @ analyzeRuleSecurity L (get_prop data ''rule'')"
    by (auto simp: validateRuleLogic_def read_prop_def Let_def split: if_splits sum.splits)
  from i have "has_complexity_issue (issues res) = has_complexity_issue xs"
    by (simp add: has_complexity_append no_complexity_security)
  with analyzeRuleLogic_complexity [OF a]
  show "has_complexity_issue (issues res) =
        (case calculateConditionComplexity (get_prop (get_prop data ''rule'') ''conditions'') 0 of
           Inr n \<Rightarrow> 10 < n | Inl e \<Rightarrow> False)"
    by simp
next
  show "calculateConditionComplexity (encode t) d =
     Inr (node_depths t d + leaf_count t + not_count t)"
    by (rule complexity_encode)
qed

theorem complexity_flag_witness:
  "has_complexity_issue
     [\<lparr> itype = ''complexity'', severity = ''warning'' \<rparr>] \<and>
   calculateConditionComplexity (encode (CAnd [CAnd [CLeaf ''a'' ''equals'' (JNum 1), CLeaf ''b'' ''equals'' (JNum 1)],
            CLeaf ''c'' ''equals'' (JNum 1), CLeaf ''d'' ''equals'' (JNum 1)])) 0 = Inr 11"
proof -
  let ?t = "CAnd [CAnd [CLeaf ''a'' ''equals'' (JNum 1), CLeaf ''b'' ''equals'' (JNum 1)],
            CLeaf ''c'' ''equals'' (JNum 1), CLeaf ''d'' ''equals'' (JNum 1)]"
  let ?data = "JObj [(''rule'', JObj [(''id'', JStr ''r1''), (''conditions'', encode ?t)])]"
  let ?res = "\<lparr> passed = True, issues = [\<lparr> itype = ''complexity'', severity = ''warning'' \<rparr>],
                score = 90,
                details = \<lparr> d_ruleId = JStr ''r1'', conditionsCount = 4,
                            actionsCount = JNum 0 \<rparr> \<rparr>"
  have v: "validateRuleLogic sample_env ?data = Inr ?res"
    by code_simp
  have g: "get_prop (get_prop ?data ''rule'') ''conditions'' = encode ?t"
    by (simp add: get_prop_def)
  have c: "node_depths ?t 0 + leaf_count ?t + not_count ?t = 11"
    by simp
  from complexity_flag [of sample_env ?data ?res ?t 0] v
  show ?thesis
    by (simp only: g c) simp
qed

text \<open>
  The claim as stated fails: for an \<open>and\<close> of an \<open>and\<close> of two leaves and two more
  leaves, the sum over the leaves of their depth + 1 is 3 + 3 + 2 + 2 = 10, which does
  not exceed 10, and the validation reports a complexity issue (the code counts 11: the
  inner \<open>and\<close> node adds its own depth 1).
\<close>

theorem complexity_formula_counterexample:
  "flags_complexity sample_env
     (JObj [(''rule'', JObj [(''id'', JStr ''r1''), (''conditions'', encode (CAnd [CAnd [CLeaf ''a'' ''equals'' (JNum 1), CLeaf ''b'' ''equals'' (JNum 1)],
            CLeaf ''c'' ''equals'' (JNum 1), CLeaf ''d'' ''equals'' (JNum 1)]))])]) \<and>
   spec_complexity (CAnd [CAnd [CLeaf ''a'' ''equals'' (JNum 1), CLeaf ''b'' ''equals'' (JNum 1)],
            CLeaf ''c'' ''equals'' (JNum 1), CLeaf ''d'' ''equals'' (JNum 1)]) 0 = 10"
  by code_simp

subsection \<open>History and anomalies\<close>

lemma completed_entry_pushed:
  "JObj (assign (assign (assign performance_validation ''status'' (JStr ''completed''))
                   ''result'' performance_result) ''result'' performance_result) = completed_entry"
  by (simp add: assign_def performance_validation_def completed_entry_def)

lemma step_history:
  "validationHistory (snd (handleValidationResult now performance_validation performance_result st)) =
     (if length (validationHistory st) + 1 > 1000
      then drop (length (validationHistory st) + 1 - 1000) (validationHistory st @ [completed_entry])
      else validationHistory st @ [completed_entry])"
  by (simp add: handleValidationResult_def Let_def completed_entry_pushed)

lemma step_keeps:
  "errorRateThreshold (snd (handleValidationResult now v r st)) = errorRateThreshold st"
  "anomalies (snd (handleValidationResult now v r st)) = anomalies st"
  by (simp_all add: handleValidationResult_def Let_def)

lemma steps_keep:
  "errorRateThreshold (((\<lambda>s. snd (handleValidationResult now v r s)) ^^ n) st) = errorRateThreshold st \<and>
   anomalies (((\<lambda>s. snd (handleValidationResult now v r s)) ^^ n) st) = anomalies st"
  by (induction n) (simp_all add: step_keeps)

lemma steps_history:
  "n \<le> 1000 \<Longrightarrow>
   validationHistory
     (((\<lambda>s. snd (handleValidationResult now performance_validation performance_result s)) ^^ n)
        new_agent) = replicate n completed_entry"
proof (induction n)
  case 0
  show ?case by (simp add: new_agent_def)
next
  case (Suc n)
  then show ?case by (simp add: step_history replicate_append_same)
qed

lemma completed_entry_facts:
  "entry_passed completed_entry" "\<not> truthy (get_prop completed_entry ''passed'')"
  "\<not> nullish completed_entry"
  by (simp_all add: entry_passed_def completed_entry_def get_prop_def performance_result_def)

lemma handleValidationResult_capped:
  "length (validationHistory (snd (handleValidationResult now v r st))) \<le> 1000"
  by (simp add: handleValidationResult_def Let_def)

lemma handleValidationError_grows:
  "length (validationHistory (handleValidationError v err st)) =
     length (validationHistory st) + 1"
  by (simp add: handleValidationError_def Let_def)

lemma detectAnomalies_short_history:
  "length (validationHistory st) < 10 \<Longrightarrow> detectAnomalies now st = Inr st"
  by (simp add: detectAnomalies_def Let_def)

text \<open>
  C7. With fewer than 10 history entries \<open>detectAnomalies\<close> changes nothing
  (\<open>detectAnomalies_short_history\<close>). The error rate it computes over the most recent
  100 entries counts the entries whose own \<open>passed\<close> property is falsy; the entries the
  agent pushes carry \<open>passed\<close> inside \<open>result\<close>, not at the top. After ten validations
  that all completed with a passing result, every entry of the history passed, the rate
  of failed validations is 0, and \<open>detectAnomalies\<close> records an anomaly with error rate
  1 against the default threshold of 5%.
\<close>

theorem anomaly_on_passing_history:
  "list_all entry_passed
     (validationHistory
        (((\<lambda>s. snd (handleValidationResult ''t0'' performance_validation performance_result s)) ^^ 10)
           new_agent)) \<and>
   map_sum message anomalies
     (detectAnomalies ''t1''
        (((\<lambda>s. snd (handleValidationResult ''t0'' performance_validation performance_result s)) ^^ 10)
           new_agent)) =
     Inr [\<lparr> an_type = ''high_error_rate'', an_timestamp = ''t1'', an_errorRate = 1,
            an_threshold = 5 / 100 \<rparr>]"
proof -
  let ?st = "((\<lambda>s. snd (handleValidationResult ''t0'' performance_validation performance_result s)) ^^ 10)
           new_agent"
  have h: "validationHistory ?st = replicate 10 completed_entry"
    by (rule steps_history) simp
  have k: "errorRateThreshold ?st = 5 / 100" "anomalies ?st = []"
    using steps_keep [where now = "''t0''" and v = performance_validation
        and r = performance_result and n = 10 and st = new_agent]
    by (simp_all add: new_agent_def)
  have p: "list_all entry_passed (validationHistory ?st)"
    by (simp add: h list_all_iff completed_entry_facts)
  have f: "filter (\<lambda>v. \<not> truthy (get_prop v ''passed'')) (replicate 10 completed_entry) =
             replicate 10 completed_entry"
    by (simp add: completed_entry_facts)
  have d: "detectAnomalies ''t1'' ?st =
     Inr (?st \<lparr> anomalies :=
              [\<lparr> an_type = ''high_error_rate'', an_timestamp = ''t1'', an_errorRate = 1,
                 an_threshold = 5 / 100 \<rparr>],
             agent_emitted := agent_emitted ?st @
                             [AnomalyDetected ''high_error_rate'' 1 (5 / 100)] \<rparr>)"
    unfolding detectAnomalies_def Let_def h k f
    by (simp add: list_ex_iff completed_entry_facts)
  show ?thesis
    using p by (simp add: d)
qed

text \<open>
  C8. A completed validation is pushed and the history is cut to its 1000 most recent
  entries (\<open>handleValidationResult_capped\<close>); a failed validation is pushed without
  the cut (\<open>handleValidationError_grows\<close>). After 1000 completed validations a
  validation that fails leaves 1001 entries in the history.
\<close>

theorem failed_validation_exceeds_cap:
  "length (validationHistory
     (handleValidationError performance_validation (Error ''Unknown validation type: x'')
        (((\<lambda>s. snd (handleValidationResult ''t0'' performance_validation performance_result s))
            ^^ 1000) new_agent))) = 1001"
proof -
  have "validationHistory
     (((\<lambda>s. snd (handleValidationResult ''t0'' performance_validation performance_result s))
            ^^ 1000) new_agent) = replicate 1000 completed_entry"
    by (rule steps_history) simp
  then show ?thesis
    by (simp add: handleValidationError_grows)
qed

end
